theory Spec2Isabelle
  imports Main "HOL-Library.Sublist"
begin

section \<open>Strings, numbers and time\<close>

text \<open>
  A JavaScript string is modelled as a \<^typ>\<open>string\<close>: one \<^typ>\<open>char\<close> stands for one
  UTF-16 code unit below 256 (the range in which Node delivers header values, and which
  contains every wallet address and every ASCII file name).

  A \<open>Date\<close> is its number of milliseconds since the epoch, an \<^typ>\<open>int\<close>. The ledger
  stores dates as the text \<open>toISOString()\<close> produces; \<open>new Date(text)\<close> reads the same
  number back, and for years 0000 to 9999 the texts are ordered as the numbers are, so the
  columns \<open>uploaded_at\<close> and \<open>expires_at\<close> carry the number itself.
\<close>

type_synonym timestamp = int

definition msPerDay :: int where
  "msPerDay = 24 * 60 * 60 * 1000"

text \<open>
  The server's local time zone, as the two offsets (in milliseconds) a JavaScript engine
  works with: \<open>offsetAtUtc t\<close> is the zone's offset from UTC at the instant \<open>t\<close>, and
  \<open>offsetAtLocal l\<close> the offset the engine takes for the local clock reading \<open>l\<close> (a
  reading a change of offset skips or repeats is read with the offset before the change).
  Nothing in the repository fixes the zone: it is part of the outside world.
\<close>

record time_zone =
  offsetAtUtc :: "timestamp \<Rightarrow> int"
  offsetAtLocal :: "timestamp \<Rightarrow> int"

definition localTime :: "time_zone \<Rightarrow> timestamp \<Rightarrow> int" where
  "localTime z t = t + offsetAtUtc z t"

definition utcTime :: "time_zone \<Rightarrow> int \<Rightarrow> timestamp" where
  "utcTime z l = l - offsetAtLocal z l"

text \<open>
  \<open>d.setDate(d.getDate() + n)\<close> moves a date by \<open>n\<close> calendar days of the local zone:
  it takes the local clock reading of the date, keeps the time of day, moves the day
  number by \<open>n\<close>, and turns the clock reading it gets back into an instant. Across a
  change of the zone's offset the result is not \<open>n\<close> times 24 hours later.
\<close>

definition addDays :: "time_zone \<Rightarrow> timestamp \<Rightarrow> int \<Rightarrow> timestamp" where
  "addDays z d n = utcTime z (localTime z d + n * msPerDay)"

text \<open>\<open>String.prototype.toLowerCase\<close> on code units below 256: the letters A to Z and the
  Latin-1 capitals 0xC0 to 0xDE (without the multiplication sign 0xD7) move up by 32.\<close>

definition lowerChar :: "char \<Rightarrow> char" where
  "lowerChar c =
     (let n = (of_char c :: nat) in
      if (65 \<le> n \<and> n \<le> 90) \<or> (192 \<le> n \<and> n \<le> 222 \<and> n \<noteq> 215)
      then char_of (n + 32) else c)"

definition toLowerCase :: "string \<Rightarrow> string" where
  "toLowerCase s = map lowerChar s"

text \<open>Number to string conversion of an integer timestamp (decimal digits, a minus sign
  for a negative number), as a template literal does it.\<close>

definition digitChar :: "int \<Rightarrow> char" where
  "digitChar d = char_of (48 + d)"

function digits :: "int \<Rightarrow> string" where
  "digits n = (if n < 10 then [digitChar n] else digits (n div 10) @ [digitChar (n mod 10)])"
  by pat_completeness auto
termination
  by (relation "measure nat") auto

declare digits.simps [simp del]

definition numberToString :: "int \<Rightarrow> string" where
  "numberToString i = (if i < 0 then CHR ''-'' # digits (- i) else digits i)"

section \<open>File keys\<close>

text \<open>The character class \<open>[a-zA-Z0-9._-]\<close> of the sanitising regular expression.\<close>

definition keptChar :: "char \<Rightarrow> bool" where
  "keptChar c \<longleftrightarrow>
     c \<in> set ''abcdefghijklmnopqrstuvwxyzABCDEFGHIJKLMNOPQRSTUVWXYZ0123456789._-''"

text \<open>\<open>name.replace(/[^a-zA-Z0-9._-]/g, "_")\<close>\<close>

definition sanitizeFilename :: "string \<Rightarrow> string" where
  "sanitizeFilename name = map (\<lambda>c. if keptChar c then c else CHR ''_'') name"

text \<open>\<open>generateFileKey\<close>, and the same template literal in \<open>POST /upload\<close>; the timestamp
  is the value \<open>Date.now()\<close> returned.\<close>

definition generateFileKey :: "timestamp \<Rightarrow> string \<Rightarrow> string \<Rightarrow> string" where
  "generateFileKey timestamp ownerAddress originalFilename =
     toLowerCase ownerAddress @ ''/'' @ numberToString timestamp @ ''-''
       @ sanitizeFilename originalFilename"

text \<open>The key format as the specification words it: every character that is not a letter
  or a digit becomes an underscore.\<close>

definition alphanumericChar :: "char \<Rightarrow> bool" where
  "alphanumericChar c \<longleftrightarrow>
     c \<in> set ''abcdefghijklmnopqrstuvwxyzABCDEFGHIJKLMNOPQRSTUVWXYZ0123456789''"

definition specFileKey :: "timestamp \<Rightarrow> string \<Rightarrow> string \<Rightarrow> string" where
  "specFileKey timestamp ownerAddress originalFilename =
     toLowerCase ownerAddress @ ''/'' @ numberToString timestamp @ ''-''
       @ map (\<lambda>c. if alphanumericChar c then c else CHR ''_'') originalFilename"

section \<open>Protected paths of the payment middleware\<close>

text \<open>The keys of the object \<open>createPaymentRoutes\<close> returns.\<close>

definition routeKeys :: "string list" where
  "routeKeys = [''POST /upload'', ''POST /renew/*'']"

text \<open>\<open>s.split(" ")\<close>: the pieces between the spaces.\<close>

fun splitSpace :: "string \<Rightarrow> string list" where
  "splitSpace [] = [[]]"
| "splitSpace (c # cs) =
     (if c = CHR '' '' then [] # splitSpace cs
      else (case splitSpace cs of p # ps \<Rightarrow> (c # p) # ps | [] \<Rightarrow> [[c]]))"

text \<open>\<open>key.split(" ", 2)[1]\<close>: the second of at most two pieces. A key without a space
  has no second piece and the source would fail on \<open>undefined\<close> at start-up; both keys of
  \<^const>\<open>routeKeys\<close> have one (lemma \<open>routeKeys_paths\<close>).\<close>

definition routePath :: "string \<Rightarrow> string" where
  "routePath key = (case take 2 (splitSpace key) of [_, p] \<Rightarrow> p | _ \<Rightarrow> [])"

record protected_path =
  pattern :: string
  isWildcard :: bool
  prefix_str :: string

definition endsWithWildcard :: "string \<Rightarrow> bool" where
  "endsWithWildcard path = suffix ''/*'' path"

definition protectedPaths :: "protected_path list" where
  "protectedPaths =
     map (\<lambda>key. let path = routePath key in
            \<lparr> pattern = path,
              isWildcard = endsWithWildcard path,
              prefix_str = (if endsWithWildcard path then take (length path - 2) path else path) \<rparr>)
         routeKeys"

definition isProtectedPath :: "string \<Rightarrow> bool" where
  "isProtectedPath requestPath =
     list_ex (\<lambda>p. if isWildcard p then prefix (prefix_str p) requestPath
                   else requestPath = pattern p)
             protectedPaths"

section \<open>The lease ledger (class AuthStore)\<close>

record FileRecord =
  fileKey :: string
  ownerAddress :: string
  originalFilename :: string
  contentType :: string
  size_bytes :: nat
  uploadedAt :: timestamp
  expiresAt :: timestamp

text \<open>The server's mutable state: the rows of table \<open>files\<close> in row order (column
  \<open>file_key\<close> is the primary key), and the module-level set \<open>paidAddresses\<close> of the payment
  middleware.\<close>

record server_state =
  files :: "FileRecord list"
  paidAddresses :: "string set"

definition initialState :: server_state where
  "initialState = \<lparr> files = [], paidAddresses = {} \<rparr>"

datatype db_error = SqliteConstraintPrimaryKey

text \<open>\<open>recordUpload\<close>: the \<open>INSERT\<close> raises when the primary key is taken.\<close>

definition recordUpload :: "FileRecord \<Rightarrow> server_state \<Rightarrow> db_error + server_state" where
  "recordUpload rec s =
     (if list_ex (\<lambda>r. fileKey r = fileKey rec) (files s) then Inl SqliteConstraintPrimaryKey
      else Inr (s\<lparr>files := files s @ [rec\<lparr>ownerAddress := toLowerCase (ownerAddress rec)\<rparr>]\<rparr>))"

definition getFile :: "server_state \<Rightarrow> string \<Rightarrow> FileRecord option" where
  "getFile s key = find (\<lambda>r. fileKey r = key) (files s)"

definition isOwner :: "server_state \<Rightarrow> string \<Rightarrow> string \<Rightarrow> bool" where
  "isOwner s key address =
     (case getFile s key of
        None \<Rightarrow> False
      | Some rec \<Rightarrow> toLowerCase (ownerAddress rec) = toLowerCase address)"

definition isExpired :: "server_state \<Rightarrow> timestamp \<Rightarrow> string \<Rightarrow> bool" where
  "isExpired s serverTime key =
     (case getFile s key of
        None \<Rightarrow> True
      | Some rec \<Rightarrow> serverTime > expiresAt rec)"

text \<open>\<open>getFilesByOwner\<close>: \<open>WHERE owner_address = ? ORDER BY uploaded_at DESC\<close>. SQL leaves
  the order of rows with equal \<open>uploaded_at\<close> open; the model keeps them in row order.\<close>

definition getFilesByOwner :: "server_state \<Rightarrow> string \<Rightarrow> FileRecord list" where
  "getFilesByOwner s owner =
     sort_key (\<lambda>r. - uploadedAt r)
       (filter (\<lambda>r. ownerAddress r = toLowerCase owner) (files s))"

text \<open>\<open>cleanupExpiredRecords\<close>: \<open>DELETE FROM files WHERE expires_at < datetime('now')\<close>
  compares the stored text \<open>YYYY-MM-DDTHH:MM:SS.sssZ\<close> with \<open>YYYY-MM-DD HH:MM:SS\<close>. On equal
  dates the letter T is above the blank, so a row goes exactly when its expiry date lies
  before the date of the server time. The result is the number of rows removed.\<close>

definition sweepable :: "timestamp \<Rightarrow> FileRecord \<Rightarrow> bool" where
  "sweepable serverTime r \<longleftrightarrow> expiresAt r div msPerDay < serverTime div msPerDay"

definition cleanupExpiredRecords :: "timestamp \<Rightarrow> server_state \<Rightarrow> nat \<times> server_state" where
  "cleanupExpiredRecords serverTime s =
     (length (filter (sweepable serverTime) (files s)),
      s\<lparr>files := filter (\<lambda>r. \<not> sweepable serverTime r) (files s)\<rparr>)"

text \<open>\<open>deleteRecord\<close>: the result tells whether a row was removed.\<close>

definition deleteRecord :: "string \<Rightarrow> server_state \<Rightarrow> bool \<times> server_state" where
  "deleteRecord key s =
     (list_ex (\<lambda>r. fileKey r = key) (files s),
      s\<lparr>files := filter (\<lambda>r. fileKey r \<noteq> key) (files s)\<rparr>)"

text \<open>The statement \<open>UPDATE files SET expires_at = ? WHERE file_key = ?\<close> of the renewal
  route.\<close>

definition updateExpiresAt :: "timestamp \<Rightarrow> string \<Rightarrow> server_state \<Rightarrow> server_state" where
  "updateExpiresAt newExpires key s =
     s\<lparr>files := map (\<lambda>r. if fileKey r = key then r\<lparr>expiresAt := newExpires\<rparr> else r) (files s)\<rparr>"

text \<open>\<open>recordPaid\<close> and \<open>hasPaid\<close> of the payment module.\<close>

definition recordPaid :: "string \<Rightarrow> server_state \<Rightarrow> server_state" where
  "recordPaid address s = s\<lparr>paidAddresses := insert (toLowerCase address) (paidAddresses s)\<rparr>"

definition hasPaid :: "server_state \<Rightarrow> string \<Rightarrow> bool" where
  "hasPaid s address \<longleftrightarrow> toLowerCase address \<in> paidAddresses s"

text \<open>The invariant of the ledger: every stored owner is in lower case.\<close>

definition ownersLowercase :: "server_state \<Rightarrow> bool" where
  "ownersLowercase s \<longleftrightarrow> (\<forall>r\<in>set (files s). toLowerCase (ownerAddress r) = ownerAddress r)"

section \<open>Configuration, requests, responses and the outside world\<close>

record config =
  maxSizeBytes :: nat
  expirationDays :: int

text \<open>The lease duration the specification speaks of: the configured number of days.\<close>

definition leaseDuration :: "config \<Rightarrow> int" where
  "leaseDuration cfg = expirationDays cfg * msPerDay"

text \<open>A call into a library or a remote service either returns or raises.\<close>

datatype 'a outcome = Returns 'a | Throws

text \<open>The collaborators the server calls: \<open>verifyMessage\<close> of viem (address, message,
  signature), the blob store client (by key), and the payment facilitator's verdict on a
  payment proof; and the time zone the server process runs in.\<close>

record env =
  timeZone :: time_zone
  verifyMessage :: "string \<Rightarrow> string \<Rightarrow> string \<Rightarrow> bool outcome"
  s3_put :: "string \<Rightarrow> bool outcome"
  s3_get :: "string \<Rightarrow> string option outcome"
  s3_delete :: "string \<Rightarrow> bool outcome"
  facilitator :: "string \<Rightarrow> bool"

record upload_file =
  file_name :: string
  file_type :: string
  file_size :: nat

text \<open>The multipart body: reading it raises, or field \<open>file\<close> is a file or is not.\<close>

datatype form_data = FormThrows | FormFields "upload_file option"

text \<open>A request: paths are in decoded form, so the \<open>key\<close> parameter of a route is the text
  after the route's prefix.\<close>

record request =
  httpMethod :: string
  path :: string
  walletAddress :: "string option"
  signature :: "string option"
  payment :: "string option"
  formData :: form_data

text \<open>The object \<open>GET /files\<close> and \<open>GET /file-info\<close> show of a row (no owner).\<close>

record file_entry =
  entryKey :: string
  filename :: string
  entryContentType :: string
  entrySize :: nat
  entryUploadedAt :: timestamp
  entryExpiresAt :: timestamp

definition fileEntry :: "FileRecord \<Rightarrow> file_entry" where
  "fileEntry file =
     \<lparr> entryKey = fileKey file, filename = originalFilename file,
       entryContentType = contentType file, entrySize = size_bytes file,
       entryUploadedAt = uploadedAt file, entryExpiresAt = expiresAt file \<rparr>"

datatype body =
    ErrorBody string
  | UploadBody string nat timestamp timestamp
  | FileBytes string string string timestamp
  | FileList "file_entry list" nat
  | FileInfo file_entry bool
  | DeleteBody string
  | RenewBody string timestamp timestamp
  | PaymentChallenge
  | ServiceInfo
  | Health timestamp
  | NoContent
  | NotFound

type_synonym response = "nat \<times> body"

definition status :: "response \<times> server_state \<Rightarrow> nat" where
  "status r = fst (fst r)"

text \<open>\<open>if (!header)\<close>: a header that is absent or empty counts as missing.\<close>

fun present :: "string option \<Rightarrow> string option" where
  "present None = None"
| "present (Some v) = (if v = [] then None else Some v)"

section \<open>Route handlers (routes/storage.ts)\<close>

text \<open>Every handler takes the state and the values the server clock returns during the
  call, and gives the response and the state it leaves.\<close>

text \<open>\<open>POST /upload\<close>. \<open>keyTime\<close> is what \<open>Date.now()\<close> returns for the key, \<open>serverTime\<close>
  what \<open>new Date()\<close> returns for \<open>uploadedAt\<close>. The text of the size error (it quotes the
  limit) is shortened.\<close>

definition uploadRoute ::
  "config \<Rightarrow> env \<Rightarrow> server_state \<Rightarrow> timestamp \<Rightarrow> timestamp \<Rightarrow> request
     \<Rightarrow> response \<times> server_state" where
  "uploadRoute cfg env s keyTime serverTime req =
     (case present (walletAddress req) of
        None \<Rightarrow> ((400, ErrorBody ''Missing X-Wallet-Address header''), s)
      | Some wallet \<Rightarrow>
          (case formData req of
             FormThrows \<Rightarrow> ((500, ErrorBody ''Failed to upload file''), s)
           | FormFields None \<Rightarrow> ((400, ErrorBody ''No file provided''), s)
           | FormFields (Some file) \<Rightarrow>
               if file_size file > maxSizeBytes cfg
               then ((400, ErrorBody ''File too large''), s)
               else
                 let key = generateFileKey keyTime wallet (file_name file) in
                 (case s3_put env key of
                    Throws \<Rightarrow> ((500, ErrorBody ''Failed to upload file''), s)
                  | Returns False \<Rightarrow> ((500, ErrorBody ''Failed to upload to S3''), s)
                  | Returns True \<Rightarrow>
                      let upAt = serverTime;
                          expAt = addDays (timeZone env) upAt (expirationDays cfg)
                      in (case recordUpload
                                 \<lparr> fileKey = key, ownerAddress = wallet,
                                   originalFilename = file_name file,
                                   contentType =
                                     (if file_type file = [] then ''application/octet-stream''
                                      else file_type file),
                                   size_bytes = file_size file,
                                   uploadedAt = upAt, expiresAt = expAt \<rparr> s of
                            Inl err \<Rightarrow> ((500, ErrorBody ''Failed to upload file''), s)
                          | Inr s' \<Rightarrow>
                              ((200, UploadBody key (file_size file) upAt expAt), s')))))"

text \<open>\<open>GET /file/:key\<close>\<close>

definition getFileRoute ::
  "env \<Rightarrow> server_state \<Rightarrow> timestamp \<Rightarrow> string \<Rightarrow> request \<Rightarrow> response \<times> server_state" where
  "getFileRoute env s serverTime key req =
     (case present (walletAddress req) of
        None \<Rightarrow> ((400, ErrorBody ''Missing X-Wallet-Address header''), s)
      | Some wallet \<Rightarrow>
     (case present (signature req) of
        None \<Rightarrow> ((400, ErrorBody ''Missing X-Signature header''), s)
      | Some sig \<Rightarrow>
     (case verifyMessage env wallet key sig of
        Throws \<Rightarrow> ((401, ErrorBody ''Signature verification failed''), s)
      | Returns False \<Rightarrow> ((401, ErrorBody ''Invalid signature''), s)
      | Returns True \<Rightarrow>
     (case getFile s key of
        None \<Rightarrow> ((404, ErrorBody ''File not found''), s)
      | Some rec \<Rightarrow>
          if \<not> isOwner s key wallet
          then ((403, ErrorBody ''Access denied: not the owner''), s)
          else if isExpired s serverTime key
          then ((410, ErrorBody ''File has expired''), snd (deleteRecord key s))
          else
            (case s3_get env key of
               Throws \<Rightarrow> ((500, ErrorBody ''Failed to download file''), s)
             | Returns None \<Rightarrow>
                 ((404, ErrorBody ''File not found in storage''), snd (deleteRecord key s))
             | Returns (Some buffer) \<Rightarrow>
                 ((200, FileBytes buffer (contentType rec) (originalFilename rec)
                          (expiresAt rec)), s))))))"

text \<open>\<open>GET /files\<close>\<close>

definition activeFiles :: "server_state \<Rightarrow> timestamp \<Rightarrow> string \<Rightarrow> FileRecord list" where
  "activeFiles s serverTime wallet =
     filter (\<lambda>file. serverTime \<le> expiresAt file) (getFilesByOwner s wallet)"

definition filesRoute ::
  "env \<Rightarrow> server_state \<Rightarrow> timestamp \<Rightarrow> request \<Rightarrow> response \<times> server_state" where
  "filesRoute env s serverTime req =
     (case present (walletAddress req) of
        None \<Rightarrow> ((400, ErrorBody ''Missing X-Wallet-Address header''), s)
      | Some wallet \<Rightarrow>
     (case present (signature req) of
        None \<Rightarrow> ((400, ErrorBody ''Missing X-Signature header''), s)
      | Some sig \<Rightarrow>
     (case verifyMessage env wallet ''list-files'' sig of
        Throws \<Rightarrow> ((401, ErrorBody ''Signature verification failed''), s)
      | Returns False \<Rightarrow> ((401, ErrorBody ''Invalid signature''), s)
      | Returns True \<Rightarrow>
          ((200, FileList (map fileEntry (activeFiles s serverTime wallet))
                   (length (activeFiles s serverTime wallet))), s))))"

text \<open>\<open>GET /file-info/:key\<close>\<close>

definition fileInfoRoute ::
  "env \<Rightarrow> server_state \<Rightarrow> timestamp \<Rightarrow> string \<Rightarrow> request \<Rightarrow> response \<times> server_state" where
  "fileInfoRoute env s serverTime key req =
     (case present (walletAddress req) of
        None \<Rightarrow> ((400, ErrorBody ''Missing X-Wallet-Address header''), s)
      | Some wallet \<Rightarrow>
     (case present (signature req) of
        None \<Rightarrow> ((400, ErrorBody ''Missing X-Signature header''), s)
      | Some sig \<Rightarrow>
     (case verifyMessage env wallet key sig of
        Throws \<Rightarrow> ((401, ErrorBody ''Signature verification failed''), s)
      | Returns False \<Rightarrow> ((401, ErrorBody ''Invalid signature''), s)
      | Returns True \<Rightarrow>
     (case getFile s key of
        None \<Rightarrow> ((404, ErrorBody ''File not found''), s)
      | Some rec \<Rightarrow>
          if \<not> isOwner s key wallet
          then ((403, ErrorBody ''Access denied: not the owner''), s)
          else ((200, FileInfo (fileEntry rec) (isExpired s serverTime key)), s)))))"

text \<open>\<open>DELETE /file/:key\<close>\<close>

definition deleteRoute ::
  "env \<Rightarrow> server_state \<Rightarrow> string \<Rightarrow> request \<Rightarrow> response \<times> server_state" where
  "deleteRoute env s key req =
     (case present (walletAddress req) of
        None \<Rightarrow> ((400, ErrorBody ''Missing X-Wallet-Address header''), s)
      | Some wallet \<Rightarrow>
     (case present (signature req) of
        None \<Rightarrow> ((400, ErrorBody ''Missing X-Signature header''), s)
      | Some sig \<Rightarrow>
     (case verifyMessage env wallet (''delete:'' @ key) sig of
        Throws \<Rightarrow> ((401, ErrorBody ''Signature verification failed''), s)
      | Returns False \<Rightarrow> ((401, ErrorBody ''Invalid signature''), s)
      | Returns True \<Rightarrow>
     (case getFile s key of
        None \<Rightarrow> ((404, ErrorBody ''File not found''), s)
      | Some rec \<Rightarrow>
          if \<not> isOwner s key wallet
          then ((403, ErrorBody ''Access denied: not the owner''), s)
          else
            (case s3_delete env key of
               Throws \<Rightarrow> ((500, ErrorBody ''Failed to delete file''), s)
             | Returns deleted \<Rightarrow> ((200, DeleteBody key), snd (deleteRecord key s)))))))"

text \<open>\<open>POST /renew/:key\<close>\<close>

definition renewRoute ::
  "env \<Rightarrow> server_state \<Rightarrow> timestamp \<Rightarrow> string \<Rightarrow> request \<Rightarrow> response \<times> server_state" where
  "renewRoute env s serverTime key req =
     (case present (walletAddress req) of
        None \<Rightarrow> ((400, ErrorBody ''Missing X-Wallet-Address header''), s)
      | Some wallet \<Rightarrow>
     (case present (signature req) of
        None \<Rightarrow> ((400, ErrorBody ''Missing X-Signature header''), s)
      | Some sig \<Rightarrow>
     (case verifyMessage env wallet (''renew:'' @ key) sig of
        Throws \<Rightarrow> ((401, ErrorBody ''Signature verification failed''), s)
      | Returns False \<Rightarrow> ((401, ErrorBody ''Invalid signature''), s)
      | Returns True \<Rightarrow>
     (case getFile s key of
        None \<Rightarrow> ((404, ErrorBody ''File not found''), s)
      | Some rec \<Rightarrow>
          if \<not> isOwner s key wallet
          then ((403, ErrorBody ''Access denied: not the owner''), s)
          else
            let oldExpires = expiresAt rec;
                newExpires = addDays (timeZone env) (max serverTime oldExpires) 10
            in ((200, RenewBody key oldExpires newExpires),
                updateExpiresAt newExpires key s)))))"

section \<open>Payment middleware and the application (middleware/payment.ts, index.ts)\<close>

text \<open>Modelled from the spec: the handler that \<open>paymentMiddleware(routes, resourceServer)\<close>
  of package \<open>@x402/hono\<close> returns is not part of the repository. For a request that
  matches one of the routes \<open>POST /upload\<close> and \<open>POST /renew/*\<close> it answers an unpaid
  request, and one whose proof the facilitator does not settle, with the 402 challenge and
  halts; it lets every other request through to the next handler. Verifying and settling
  a proof are one verdict of the facilitator here.\<close>

definition routeRequiresPayment :: "request \<Rightarrow> bool" where
  "routeRequiresPayment req \<longleftrightarrow>
     httpMethod req = ''POST'' \<and> (path req = ''/upload'' \<or> prefix ''/renew/'' (path req))"

definition paidAwareMiddleware ::
  "env \<Rightarrow> server_state \<Rightarrow> request \<Rightarrow> response \<times> server_state \<Rightarrow> response \<times> server_state" where
  "paidAwareMiddleware env s req next =
     (if \<not> routeRequiresPayment req then next
      else (case payment req of
              None \<Rightarrow> ((402, PaymentChallenge), s)
            | Some proof \<Rightarrow> if facilitator env proof then next else ((402, PaymentChallenge), s)))"

text \<open>\<open>middleware\<close> of \<open>createPaymentMiddleware\<close>: \<open>paidAware\<close> is the library handler,
  \<open>next\<close> what the rest of the chain answers.\<close>

definition middleware :: "(request \<Rightarrow> 'a \<Rightarrow> 'a) \<Rightarrow> request \<Rightarrow> 'a \<Rightarrow> 'a" where
  "middleware paidAware req next =
     (if isProtectedPath (path req) then paidAware req next else next)"

text \<open>The \<open>key\<close> parameter of a route \<open>/name/:key{.+}\<close>: the non-empty rest of the path.\<close>

definition keyParam :: "string \<Rightarrow> string \<Rightarrow> string option" where
  "keyParam routePrefix p =
     (if prefix routePrefix p \<and> length routePrefix < length p
      then Some (drop (length routePrefix) p) else None)"

text \<open>The routes in the order \<open>main\<close> registers them; the key handed to a handler is
  the path without the route's prefix (of 6, 11 or 7 characters). A request no route
  matches gets the framework's 404.\<close>

definition router ::
  "config \<Rightarrow> env \<Rightarrow> server_state \<Rightarrow> timestamp \<Rightarrow> timestamp \<Rightarrow> request
     \<Rightarrow> response \<times> server_state" where
  "router cfg env s keyTime serverTime req =
     (if httpMethod req = ''GET'' \<and> path req = ''/'' then ((200, ServiceInfo), s)
      else if httpMethod req = ''GET'' \<and> path req = ''/health'' then ((200, Health serverTime), s)
      else if httpMethod req = ''POST'' \<and> path req = ''/upload''
        then uploadRoute cfg env s keyTime serverTime req
      else if httpMethod req = ''GET'' \<and> keyParam ''/file/'' (path req) \<noteq> None
        then getFileRoute env s serverTime (drop 6 (path req)) req
      else if httpMethod req = ''GET'' \<and> path req = ''/files''
        then filesRoute env s serverTime req
      else if httpMethod req = ''GET'' \<and> keyParam ''/file-info/'' (path req) \<noteq> None
        then fileInfoRoute env s serverTime (drop 11 (path req)) req
      else if httpMethod req = ''DELETE'' \<and> keyParam ''/file/'' (path req) \<noteq> None
        then deleteRoute env s (drop 6 (path req)) req
      else if httpMethod req = ''POST'' \<and> keyParam ''/renew/'' (path req) \<noteq> None
        then renewRoute env s serverTime (drop 7 (path req)) req
      else ((404, NotFound), s))"

text \<open>The application: \<open>cors()\<close> of package \<open>hono/cors\<close> answers an \<open>OPTIONS\<close> request
  itself, every other request passes the payment middleware and then the routes.\<close>

definition app ::
  "config \<Rightarrow> env \<Rightarrow> server_state \<Rightarrow> timestamp \<Rightarrow> timestamp \<Rightarrow> request
     \<Rightarrow> response \<times> server_state" where
  "app cfg env s keyTime serverTime req =
     (if httpMethod req = ''OPTIONS'' then ((204, NoContent), s)
      else middleware (paidAwareMiddleware env s) req
             (router cfg env s keyTime serverTime req))"

text \<open>The states the server can be in: it starts with an empty table, answers requests,
  and runs the hourly cleanup.\<close>

inductive reachable :: "server_state \<Rightarrow> bool" where
  start: "reachable initialState"
| request: "reachable s \<Longrightarrow> reachable (snd (app cfg env s keyTime serverTime req))"
| cleanup: "reachable s \<Longrightarrow> reachable (snd (cleanupExpiredRecords serverTime s))"

section \<open>A scenario\<close>

text \<open>A server configured for leases of 30 days.\<close>

definition exampleConfig :: config where
  "exampleConfig = \<lparr> maxSizeBytes = 1000000000, expirationDays = 30 \<rparr>"

text \<open>Two time zones: UTC, and New York around its change to daylight time on 10 March
  2024, when the offset went from five to four hours behind UTC at 07:00 UTC (the local
  clock readings from 03:00 on are daylight time).\<close>

definition utcZone :: time_zone where
  "utcZone = \<lparr> offsetAtUtc = (\<lambda>t. 0), offsetAtLocal = (\<lambda>l. 0) \<rparr>"

definition newYork2024 :: time_zone where
  "newYork2024 =
     \<lparr> offsetAtUtc = (\<lambda>t. if t < 1710054000000 then - 18000000 else - 14400000),
       offsetAtLocal = (\<lambda>l. if l < 1710039600000 then - 18000000 else - 14400000) \<rparr>"

text \<open>An outside world in which the signature \<open>0xgood\<close> verifies for every address and
  message, the text \<open>0xzz\<close> is no signature at all (verification raises), the blob store
  works, the facilitator settles the proof \<open>paid\<close> and no other, and the server runs
  in UTC; and the same world with the server in New York.\<close>

definition exampleEnv :: env where
  "exampleEnv =
     \<lparr> timeZone = utcZone,
       verifyMessage = (\<lambda>address message sig.
                          if sig = ''0xzz'' then Throws else Returns (sig = ''0xgood'')),
       s3_put = (\<lambda>key. Returns True),
       s3_get = (\<lambda>key. Returns (Some ''hello'')),
       s3_delete = (\<lambda>key. Returns True),
       facilitator = (\<lambda>p. p = ''paid'') \<rparr>"

definition newYorkEnv :: env where
  "newYorkEnv = exampleEnv\<lparr>timeZone := newYork2024\<rparr>"

text \<open>The configuration with the defaults of \<open>config.ts\<close>.\<close>

definition defaultConfig :: config where
  "defaultConfig = \<lparr> maxSizeBytes = 1000000000, expirationDays = 10 \<rparr>"

text \<open>A request with both identity headers and no body.\<close>

definition signedRequest ::
  "string \<Rightarrow> string \<Rightarrow> string \<Rightarrow> string \<Rightarrow> string option \<Rightarrow> request" where
  "signedRequest m p wallet sig pay =
     \<lparr> httpMethod = m, path = p, walletAddress = Some wallet, signature = Some sig,
       payment = pay, formData = FormFields None \<rparr>"

text \<open>The upload of the five bytes of \<open>hello.txt\<close> by wallet \<open>0xAA\<close>, with a settled
  payment proof, and the row it leaves in the ledger when the clock shows 1707825600000.\<close>

definition uploadHello :: request where
  "uploadHello =
     \<lparr> httpMethod = ''POST'', path = ''/upload'', walletAddress = Some ''0xAA'',
       signature = None, payment = Some ''paid'',
       formData = FormFields (Some \<lparr> file_name = ''hello.txt'', file_type = ''text/plain'',
                                      file_size = 5 \<rparr>) \<rparr>"

definition helloKey :: string where
  "helloKey = ''0xaa/1707825600000-hello.txt''"

definition helloRecord :: FileRecord where
  "helloRecord =
     \<lparr> fileKey = helloKey, ownerAddress = ''0xaa'', originalFilename = ''hello.txt'',
       contentType = ''text/plain'', size_bytes = 5,
       uploadedAt = 1707825600000, expiresAt = 1710417600000 \<rparr>"

definition exampleState :: server_state where
  "exampleState = \<lparr> files = [helloRecord], paidAddresses = {} \<rparr>"

text \<open>A ledger whose only row, the file of \<open>0xaa\<close>, expires on 5 March 2024 at 12:00
  UTC.\<close>

definition marchState :: server_state where
  "marchState = \<lparr> files = [helloRecord\<lparr>expiresAt := 1709640000000\<rparr>], paidAddresses = {} \<rparr>"

text \<open>A ledger with four rows: three of wallet \<open>0xaa\<close>, one of them expired at time 500,
  and one of wallet \<open>0xbb\<close>.\<close>

definition row :: "string \<Rightarrow> string \<Rightarrow> timestamp \<Rightarrow> timestamp \<Rightarrow> FileRecord" where
  "row key owner upAt expAt =
     \<lparr> fileKey = key, ownerAddress = owner, originalFilename = ''f'',
       contentType = ''text/plain'', size_bytes = 1, uploadedAt = upAt, expiresAt = expAt \<rparr>"

definition listState :: server_state where
  "listState =
     \<lparr> files = [row ''0xaa/100-f'' ''0xaa'' 100 1000, row ''0xaa/200-f'' ''0xaa'' 200 50,
                row ''0xbb/300-f'' ''0xbb'' 300 1000, row ''0xaa/400-f'' ''0xaa'' 400 2000],
       paidAddresses = {} \<rparr>"

section \<open>Properties of strings and of the ledger\<close>

lemma lowerChar_idem: "lowerChar (lowerChar c) = lowerChar c"
proof -
  define n where "n = (of_char c :: nat)"
  show ?thesis
  proof (cases "(65 \<le> n \<and> n \<le> 90) \<or> (192 \<le> n \<and> n \<le> 222 \<and> n \<noteq> 215)")
    case True
    then have l: "lowerChar c = char_of (n + 32)"
      unfolding lowerChar_def Let_def n_def by simp
    have "(of_char (char_of (n + 32) :: char) :: nat) = (n + 32) mod 256"
      by (rule of_char_of)
    with True have m: "(of_char (char_of (n + 32) :: char) :: nat) = n + 32"
      by auto
    have "lowerChar (char_of (n + 32)) = char_of (n + 32)"
      unfolding lowerChar_def Let_def m using True by auto
    then show ?thesis
      by (simp only: l)
  next
    case False
    then have "lowerChar c = c"
      unfolding lowerChar_def Let_def n_def by auto
    then show ?thesis
      by simp
  qed
qed

lemma toLowerCase_idem: "toLowerCase (toLowerCase a) = toLowerCase a"
  by (simp add: toLowerCase_def lowerChar_idem)

lemma keptChar_iff:
  "keptChar c \<longleftrightarrow>
     alphanumericChar c \<or> c = CHR ''.'' \<or> c = CHR ''_'' \<or> c = CHR ''-''"
  unfolding keptChar_def alphanumericChar_def by auto

lemma getFile_Some_set: "getFile s key = Some rec \<Longrightarrow> rec \<in> set (files s) \<and> fileKey rec = key"
  unfolding getFile_def by (auto simp: find_Some_iff)

lemma getFile_None_iff: "getFile s key = None \<longleftrightarrow> (\<forall>r\<in>set (files s). fileKey r \<noteq> key)"
  unfolding getFile_def by (auto simp: find_None_iff)

lemma list_ex_getFile: "list_ex (\<lambda>r. fileKey r = key) (files s) \<longleftrightarrow> getFile s key \<noteq> None"
  by (simp add: getFile_None_iff list_ex_iff)

lemma find_append_new:
  "find P xs = None \<Longrightarrow> P x \<Longrightarrow> find P (xs @ [x]) = Some x"
  by (induction xs) (auto split: if_splits)

lemma find_append_old:
  "\<not> P x \<Longrightarrow> find P (xs @ [x]) = find P xs"
  by (induction xs) auto

lemma recordUpload_taken:
  "getFile s (fileKey rec) \<noteq> None \<Longrightarrow> recordUpload rec s = Inl SqliteConstraintPrimaryKey"
  by (simp add: recordUpload_def list_ex_getFile)

lemma recordUpload_free:
  "getFile s (fileKey rec) = None \<Longrightarrow>
     recordUpload rec s =
       Inr (s\<lparr>files := files s @ [rec\<lparr>ownerAddress := toLowerCase (ownerAddress rec)\<rparr>]\<rparr>)"
  by (simp add: recordUpload_def list_ex_getFile)

lemma recordUpload_Inr:
  assumes "recordUpload rec s = Inr s'"
  shows "getFile s (fileKey rec) = None
       \<and> s' = s\<lparr>files := files s @ [rec\<lparr>ownerAddress := toLowerCase (ownerAddress rec)\<rparr>]\<rparr>
       \<and> getFile s' (fileKey rec) = Some (rec\<lparr>ownerAddress := toLowerCase (ownerAddress rec)\<rparr>)"
proof -
  have free: "getFile s (fileKey rec) = None"
    using assms by (cases "getFile s (fileKey rec)") (simp_all add: recordUpload_taken)
  then have s': "s' = s\<lparr>files := files s @ [rec\<lparr>ownerAddress := toLowerCase (ownerAddress rec)\<rparr>]\<rparr>"
    using assms by (simp add: recordUpload_free)
  have "getFile s' (fileKey rec) = Some (rec\<lparr>ownerAddress := toLowerCase (ownerAddress rec)\<rparr>)"
    using free unfolding s' getFile_def by (simp add: find_append_new)
  with free s' show ?thesis by simp
qed

lemma getFile_deleteRecord: "getFile (snd (deleteRecord key s)) key = None"
  by (simp add: deleteRecord_def getFile_None_iff)

lemma deleteRecord_absent: "getFile s key = None \<Longrightarrow> deleteRecord key s = (False, s)"
proof -
  assume a: "getFile s key = None"
  then have "filter (\<lambda>r. fileKey r \<noteq> key) (files s) = files s"
    by (simp add: getFile_None_iff)
  with a show ?thesis
    by (simp add: deleteRecord_def list_ex_getFile)
qed

lemma find_map_update:
  "find (\<lambda>r. fileKey r = key) (map (\<lambda>r. if fileKey r = key then r\<lparr>expiresAt := e\<rparr> else r) xs)
     = map_option (\<lambda>r. r\<lparr>expiresAt := e\<rparr>) (find (\<lambda>r. fileKey r = key) xs)"
  by (induction xs) auto

lemma getFile_updateExpiresAt:
  "getFile s key = Some rec \<Longrightarrow>
     getFile (updateExpiresAt e key s) key = Some (rec\<lparr>expiresAt := e\<rparr>)"
  by (simp add: getFile_def updateExpiresAt_def find_map_update)

lemma activeFiles_sound:
  "r \<in> set (activeFiles s now w) \<Longrightarrow>
     r \<in> set (files s) \<and> ownerAddress r = toLowerCase w \<and> \<not> expiresAt r < now"
  by (auto simp: activeFiles_def getFilesByOwner_def)

lemma getFilesByOwner_newest_first:
  "sorted_wrt (\<lambda>a b. uploadedAt b \<le> uploadedAt a) (getFilesByOwner s w)"
proof -
  have "sorted (map (\<lambda>r. - uploadedAt r) (getFilesByOwner s w))"
    unfolding getFilesByOwner_def by (rule sorted_sort_key)
  then show ?thesis
    by (simp add: sorted_map)
qed

lemma activeFiles_newest_first:
  "sorted_wrt (\<lambda>a b. uploadedAt b \<le> uploadedAt a) (activeFiles s now w)"
  unfolding activeFiles_def by (rule sorted_wrt_filter) (rule getFilesByOwner_newest_first)

lemma recordUpload_stored:
  assumes "recordUpload rec s = Inr s'"
  shows "getFile s' (fileKey rec) \<noteq> None
       \<and> map_option fileKey (getFile s' (fileKey rec)) = Some (fileKey rec)
       \<and> map_option ownerAddress (getFile s' (fileKey rec)) = Some (toLowerCase (ownerAddress rec))"
proof -
  from recordUpload_Inr [OF assms]
  have "getFile s' (fileKey rec) = Some (rec\<lparr>ownerAddress := toLowerCase (ownerAddress rec)\<rparr>)"
    by blast
  then show ?thesis
    by simp
qed

lemma addDays_eq:
  "addDays z d n =
     d + n * msPerDay + (offsetAtUtc z d - offsetAtLocal z (d + offsetAtUtc z d + n * msPerDay))"
  by (simp add: addDays_def utcTime_def localTime_def)

lemma addDays_same_offset:
  "offsetAtLocal z (d + offsetAtUtc z d + n * msPerDay) = offsetAtUtc z d \<Longrightarrow>
     addDays z d n = d + n * msPerDay"
  by (simp add: addDays_eq)

lemma addDays_utc: "addDays utcZone d n = d + n * msPerDay"
  by (simp add: addDays_eq utcZone_def)

section \<open>Routing and the handlers' paths\<close>

lemma routeKeys_paths: "map routePath routeKeys = [''/upload'', ''/renew/*'']"
  by (simp add: routeKeys_def routePath_def)

lemma protectedPaths_eq:
  "protectedPaths =
     [\<lparr>pattern = ''/upload'', isWildcard = False, prefix_str = ''/upload''\<rparr>,
      \<lparr>pattern = ''/renew/*'', isWildcard = True, prefix_str = ''/renew''\<rparr>]"
  by code_simp

lemma isProtectedPath_iff: "isProtectedPath p \<longleftrightarrow> p = ''/upload'' \<or> prefix ''/renew'' p"
  by (simp add: isProtectedPath_def protectedPaths_eq)

lemma router_renew:
  assumes "httpMethod req = ''POST''" and "path req = ''/renew/'' @ key" and "key \<noteq> []"
  shows "router cfg env s keyTime serverTime req = renewRoute env s serverTime key req"
  using assms by (simp add: router_def keyParam_def)

lemma app_renew:
  assumes "httpMethod req = ''POST''" and "path req = ''/renew/'' @ key" and "key \<noteq> []"
  shows "app cfg env s keyTime serverTime req =
           (case payment req of
              None \<Rightarrow> ((402, PaymentChallenge), s)
            | Some p \<Rightarrow> if facilitator env p then renewRoute env s serverTime key req
                        else ((402, PaymentChallenge), s))"
  using assms router_renew [OF assms]
  by (simp add: app_def middleware_def isProtectedPath_iff paidAwareMiddleware_def
        routeRequiresPayment_def)

lemma renewRoute_owner:
  assumes "present (walletAddress req) = Some w"
    and "present (signature req) = Some sg"
    and "verifyMessage env w (''renew:'' @ key) sg = Returns True"
    and "getFile s key = Some rec"
    and "isOwner s key w"
  shows "renewRoute env s now key req =
           ((200, RenewBody key (expiresAt rec)
                    (addDays (timeZone env) (max now (expiresAt rec)) 10)),
            updateExpiresAt (addDays (timeZone env) (max now (expiresAt rec)) 10) key s)"
  using assms by (simp add: renewRoute_def Let_def)

lemma renewRoute_stranger:
  assumes "present (walletAddress req) = Some w"
    and "present (signature req) = Some sg"
    and "verifyMessage env w (''renew:'' @ key) sg = Returns True"
    and "getFile s key = Some rec"
    and "\<not> isOwner s key w"
  shows "renewRoute env s now key req = ((403, ErrorBody ''Access denied: not the owner''), s)"
  using assms by (simp add: renewRoute_def)

lemma upload_ok_cases:
  assumes ok: "uploadRoute cfg env s keyTime serverTime req = ((200, b), s')"
  shows "\<exists>wallet file.
           present (walletAddress req) = Some wallet
         \<and> formData req = FormFields (Some file)
         \<and> file_size file \<le> maxSizeBytes cfg
         \<and> s3_put env (generateFileKey keyTime wallet (file_name file)) = Returns True
         \<and> b = UploadBody (generateFileKey keyTime wallet (file_name file)) (file_size file)
                 serverTime (addDays (timeZone env) serverTime (expirationDays cfg))
         \<and> recordUpload
               \<lparr> fileKey = generateFileKey keyTime wallet (file_name file),
                 ownerAddress = wallet,
                 originalFilename = file_name file,
                 contentType = (if file_type file = [] then ''application/octet-stream''
                                else file_type file),
                 size_bytes = file_size file,
                 uploadedAt = serverTime,
                 expiresAt = addDays (timeZone env) serverTime (expirationDays cfg) \<rparr> s = Inr s'"
proof -
  obtain wallet where w: "present (walletAddress req) = Some wallet"
    using ok by (cases "present (walletAddress req)") (simp_all add: uploadRoute_def)
  obtain upl where f: "formData req = FormFields (Some upl)"
    using ok w by (cases "formData req") (simp_all add: uploadRoute_def split: option.splits)
  have sz: "file_size upl \<le> maxSizeBytes cfg"
    using ok w f by (simp add: uploadRoute_def split: if_splits)
  let ?key = "generateFileKey keyTime wallet (file_name upl)"
  have put: "s3_put env ?key = Returns True"
    using ok w f sz
    by (cases "s3_put env ?key") (simp_all add: uploadRoute_def Let_def split: bool.splits)
  let ?rec = "\<lparr> fileKey = ?key, ownerAddress = wallet,
                 originalFilename = file_name upl,
                 contentType = (if file_type upl = [] then ''application/octet-stream''
                                else file_type upl),
                 size_bytes = file_size upl,
                 uploadedAt = serverTime,
                 expiresAt = addDays (timeZone env) serverTime (expirationDays cfg) \<rparr>"
  have ins: "recordUpload ?rec s = Inr s'
           \<and> b = UploadBody ?key (file_size upl) serverTime (addDays (timeZone env) serverTime (expirationDays cfg))"
    using ok w f sz put
    by (cases "recordUpload ?rec s") (simp_all add: uploadRoute_def Let_def)
  show ?thesis
    using w f sz put ins by blast
qed

lemma uploadRoute_stored:
  assumes "present (walletAddress req) = Some w"
    and "formData req = FormFields (Some f)"
    and "file_size f \<le> maxSizeBytes cfg"
    and "s3_put env (generateFileKey keyTime w (file_name f)) = Returns True"
  shows "uploadRoute cfg env s keyTime serverTime req =
           (case recordUpload
                   \<lparr> fileKey = generateFileKey keyTime w (file_name f),
                     ownerAddress = w,
                     originalFilename = file_name f,
                     contentType = (if file_type f = [] then ''application/octet-stream''
                                    else file_type f),
                     size_bytes = file_size f,
                     uploadedAt = serverTime,
                     expiresAt = addDays (timeZone env) serverTime (expirationDays cfg) \<rparr> s of
              Inl err \<Rightarrow> ((500, ErrorBody ''Failed to upload file''), s)
            | Inr s' \<Rightarrow>
                ((200, UploadBody (generateFileKey keyTime w (file_name f)) (file_size f)
                         serverTime (addDays (timeZone env) serverTime (expirationDays cfg))), s'))"
  using assms by (simp add: uploadRoute_def Let_def)

lemma uploadRoute_taken:
  assumes "present (walletAddress req) = Some w"
    and "formData req = FormFields (Some f)"
    and "file_size f \<le> maxSizeBytes cfg"
    and "s3_put env (generateFileKey keyTime w (file_name f)) = Returns True"
    and "getFile s (generateFileKey keyTime w (file_name f)) \<noteq> None"
  shows "uploadRoute cfg env s keyTime serverTime req
           = ((500, ErrorBody ''Failed to upload file''), s)"
  using assms(5) unfolding uploadRoute_stored [OF assms(1-4)]
  by (simp add: recordUpload_taken)

lemma uploadRoute_free:
  assumes "present (walletAddress req) = Some w"
    and "formData req = FormFields (Some f)"
    and "file_size f \<le> maxSizeBytes cfg"
    and "s3_put env (generateFileKey keyTime w (file_name f)) = Returns True"
    and "getFile s (generateFileKey keyTime w (file_name f)) = None"
  shows "uploadRoute cfg env s keyTime serverTime req
           = ((200, UploadBody (generateFileKey keyTime w (file_name f)) (file_size f)
                      serverTime (addDays (timeZone env) serverTime (expirationDays cfg))),
              s\<lparr>files := files s @
                 [\<lparr> fileKey = generateFileKey keyTime w (file_name f),
                    ownerAddress = toLowerCase w,
                    originalFilename = file_name f,
                    contentType = (if file_type f = [] then ''application/octet-stream''
                                   else file_type f),
                    size_bytes = file_size f,
                    uploadedAt = serverTime,
                    expiresAt = addDays (timeZone env) serverTime (expirationDays cfg) \<rparr>]\<rparr>)"
  using assms(5) unfolding uploadRoute_stored [OF assms(1-4)]
  by (simp add: recordUpload_free)

lemma app_delete:
  assumes "httpMethod req = ''DELETE''" and "path req = ''/file/'' @ key" and "key \<noteq> []"
  shows "app cfg env s keyTime serverTime req = deleteRoute env s key req"
  using assms
  by (simp add: app_def middleware_def isProtectedPath_iff router_def keyParam_def)

lemma deleteRoute_absent:
  assumes "present (walletAddress req) = Some w"
    and "present (signature req) = Some sg"
    and "verifyMessage env w (''delete:'' @ key) sg = Returns True"
    and "getFile s key = None"
  shows "deleteRoute env s key req = ((404, ErrorBody ''File not found''), s)"
  using assms by (simp add: deleteRoute_def)

lemma deleteRoute_done:
  assumes "deleteRoute env s key req = ((200, b), s')"
  shows "getFile s' key = None"
proof -
  have "s' = snd (deleteRecord key s)"
    using assms
    by (simp add: deleteRoute_def split: option.splits outcome.splits bool.splits if_splits)
  then show ?thesis
    by (simp add: getFile_deleteRecord)
qed

section \<open>The set of paid addresses is never read\<close>

lemma ledger_reads_ignore_paid:
  "getFile (s\<lparr>paidAddresses := P\<rparr>) key = getFile s key"
  "isOwner (s\<lparr>paidAddresses := P\<rparr>) key a = isOwner s key a"
  "isExpired (s\<lparr>paidAddresses := P\<rparr>) now key = isExpired s now key"
  "getFilesByOwner (s\<lparr>paidAddresses := P\<rparr>) a = getFilesByOwner s a"
  "activeFiles (s\<lparr>paidAddresses := P\<rparr>) now a = activeFiles s now a"
  by (simp_all add: getFile_def isOwner_def isExpired_def getFilesByOwner_def activeFiles_def)

lemma ledger_writes_ignore_paid:
  "snd (deleteRecord key (s\<lparr>paidAddresses := P\<rparr>)) = (snd (deleteRecord key s))\<lparr>paidAddresses := P\<rparr>"
  "updateExpiresAt e key (s\<lparr>paidAddresses := P\<rparr>) = (updateExpiresAt e key s)\<lparr>paidAddresses := P\<rparr>"
  "recordUpload rec (s\<lparr>paidAddresses := P\<rparr>)
     = map_sum id (\<lambda>t. t\<lparr>paidAddresses := P\<rparr>) (recordUpload rec s)"
  by (simp_all add: deleteRecord_def updateExpiresAt_def recordUpload_def)

lemma getFileRoute_ignores_paid:
  "getFileRoute env (s\<lparr>paidAddresses := P\<rparr>) now key req
     = apsnd (\<lambda>t. t\<lparr>paidAddresses := P\<rparr>) (getFileRoute env s now key req)"
  by (simp add: getFileRoute_def ledger_reads_ignore_paid ledger_writes_ignore_paid
           split: option.splits outcome.splits bool.splits)

lemma filesRoute_ignores_paid:
  "filesRoute env (s\<lparr>paidAddresses := P\<rparr>) now req
     = apsnd (\<lambda>t. t\<lparr>paidAddresses := P\<rparr>) (filesRoute env s now req)"
  by (simp add: filesRoute_def ledger_reads_ignore_paid
           split: option.splits outcome.splits bool.splits)

lemma fileInfoRoute_ignores_paid:
  "fileInfoRoute env (s\<lparr>paidAddresses := P\<rparr>) now key req
     = apsnd (\<lambda>t. t\<lparr>paidAddresses := P\<rparr>) (fileInfoRoute env s now key req)"
  by (simp add: fileInfoRoute_def ledger_reads_ignore_paid
           split: option.splits outcome.splits bool.splits)

lemma deleteRoute_ignores_paid:
  "deleteRoute env (s\<lparr>paidAddresses := P\<rparr>) key req
     = apsnd (\<lambda>t. t\<lparr>paidAddresses := P\<rparr>) (deleteRoute env s key req)"
  by (simp add: deleteRoute_def ledger_reads_ignore_paid ledger_writes_ignore_paid
           split: option.splits outcome.splits bool.splits)

lemma renewRoute_ignores_paid:
  "renewRoute env (s\<lparr>paidAddresses := P\<rparr>) now key req
     = apsnd (\<lambda>t. t\<lparr>paidAddresses := P\<rparr>) (renewRoute env s now key req)"
  by (simp add: renewRoute_def Let_def ledger_reads_ignore_paid ledger_writes_ignore_paid
           split: option.splits outcome.splits bool.splits)

lemma uploadRoute_ignores_paid:
  "uploadRoute cfg env (s\<lparr>paidAddresses := P\<rparr>) keyTime now req
     = apsnd (\<lambda>t. t\<lparr>paidAddresses := P\<rparr>) (uploadRoute cfg env s keyTime now req)"
  by (simp add: uploadRoute_def Let_def ledger_writes_ignore_paid
           split: option.splits form_data.splits outcome.splits bool.splits sum.splits)

lemma router_ignores_paid:
  "router cfg env (s\<lparr>paidAddresses := P\<rparr>) keyTime now req
     = apsnd (\<lambda>t. t\<lparr>paidAddresses := P\<rparr>) (router cfg env s keyTime now req)"
  by (auto simp: router_def getFileRoute_ignores_paid filesRoute_ignores_paid
        fileInfoRoute_ignores_paid deleteRoute_ignores_paid renewRoute_ignores_paid
        uploadRoute_ignores_paid)

lemma app_ignores_paid:
  "app cfg env (s\<lparr>paidAddresses := P\<rparr>) keyTime now req
     = apsnd (\<lambda>t. t\<lparr>paidAddresses := P\<rparr>) (app cfg env s keyTime now req)"
  by (simp add: app_def middleware_def paidAwareMiddleware_def router_ignores_paid
           split: option.splits)

lemma prefix_renew: "prefix ''/renew/'' p \<Longrightarrow> prefix ''/renew'' p"
proof -
  assume "prefix ''/renew/'' p"
  moreover have "prefix ''/renew'' ''/renew/''"
    by simp
  ultimately show ?thesis
    by (rule prefix_order.trans [rotated])
qed

lemma app_unpaid:
  assumes "routeRequiresPayment req"
    and "payment req = None \<or> (\<exists>p. payment req = Some p \<and> \<not> facilitator env p)"
  shows "app cfg env s keyTime now req = ((402, PaymentChallenge), s)"
proof -
  have "isProtectedPath (path req)" and "httpMethod req \<noteq> ''OPTIONS''"
    using assms(1) by (auto simp: routeRequiresPayment_def isProtectedPath_iff dest: prefix_renew)
  then show ?thesis
    using assms by (auto simp: app_def middleware_def paidAwareMiddleware_def)
qed

section \<open>The scenario, evaluated\<close>

lemma signedRequest_fields:
  "httpMethod (signedRequest m p w sg pay) = m"
  "path (signedRequest m p w sg pay) = p"
  "present (walletAddress (signedRequest m p w sg pay)) = (if w = [] then None else Some w)"
  "present (signature (signedRequest m p w sg pay)) = (if sg = [] then None else Some sg)"
  "payment (signedRequest m p w sg pay) = pay"
  by (simp_all add: signedRequest_def)

lemma exampleEnv_verifies:
  "verifyMessage exampleEnv a m ''0xgood'' = Returns True"
  "verifyMessage exampleEnv a m ''0xbad'' = Returns False"
  "verifyMessage exampleEnv a m ''0xzz'' = Throws"
  by (simp_all add: exampleEnv_def)

lemma newYorkEnv_fields:
  "timeZone exampleEnv = utcZone"
  "timeZone newYorkEnv = newYork2024"
  "verifyMessage newYorkEnv = verifyMessage exampleEnv"
  "s3_put newYorkEnv = s3_put exampleEnv"
  "facilitator newYorkEnv = facilitator exampleEnv"
  by (simp_all add: newYorkEnv_def exampleEnv_def)

lemma exampleEnv_settles: "facilitator exampleEnv ''paid''"
  by (simp add: exampleEnv_def)

lemma exampleState_hello: "getFile exampleState helloKey = Some helloRecord"
  by (simp add: getFile_def exampleState_def helloRecord_def)

lemma hello_owner:
  "isOwner exampleState helloKey ''0xAA''" "\<not> isOwner exampleState helloKey ''0xBB''"
  by code_simp+

lemma helloKey_nonempty: "helloKey \<noteq> []"
  by (simp add: helloKey_def)

lemma hello_key: "generateFileKey 1707825600000 ''0xAA'' ''hello.txt'' = helloKey"
  by code_simp

lemma lower_0xAA: "toLowerCase ''0xAA'' = ''0xaa''"
  by code_simp

lemma uploadHello_fields:
  "present (walletAddress uploadHello) = Some ''0xAA''"
  "formData uploadHello =
     FormFields (Some \<lparr> file_name = ''hello.txt'', file_type = ''text/plain'', file_size = 5 \<rparr>)"
  "httpMethod uploadHello = ''POST''"
  "path uploadHello = ''/upload''"
  "payment uploadHello = Some ''paid''"
  by (simp_all add: uploadHello_def)

lemma exampleEnv_stores: "s3_put exampleEnv key = Returns True"
  by (simp add: exampleEnv_def)

lemma uploadHello_checks:
  "file_size \<lparr> file_name = ''hello.txt'', file_type = ''text/plain'', file_size = 5 \<rparr>
     \<le> maxSizeBytes exampleConfig"
  "s3_put exampleEnv
     (generateFileKey 1707825600000 ''0xAA''
        (file_name \<lparr> file_name = ''hello.txt'', file_type = ''text/plain'', file_size = 5 \<rparr>))
     = Returns True"
  by (simp_all add: exampleConfig_def exampleEnv_stores)

lemma upload_hello:
  "uploadRoute exampleConfig exampleEnv initialState 1707825600000 1707825600000 uploadHello
     = ((200, UploadBody helloKey 5 1707825600000 1710417600000), exampleState)"
proof -
  have free: "getFile initialState
                (generateFileKey 1707825600000 ''0xAA''
                   (file_name \<lparr> file_name = ''hello.txt'', file_type = ''text/plain'',
                                 file_size = 5 \<rparr>)) = None"
    by (simp add: getFile_def initialState_def)
  have lease: "addDays (timeZone exampleEnv) 1707825600000 (expirationDays exampleConfig)
                 = 1710417600000"
    by (simp add: newYorkEnv_fields addDays_utc exampleConfig_def msPerDay_def)
  show ?thesis
    unfolding uploadRoute_free [OF uploadHello_fields(1,2) uploadHello_checks free] lease
    by (simp add: hello_key lower_0xAA initialState_def exampleState_def helloRecord_def)
qed

lemma upload_hello_again:
  "uploadRoute exampleConfig exampleEnv exampleState 1707825600000 serverTime uploadHello
     = ((500, ErrorBody ''Failed to upload file''), exampleState)"
proof -
  have taken: "getFile exampleState
                (generateFileKey 1707825600000 ''0xAA''
                   (file_name \<lparr> file_name = ''hello.txt'', file_type = ''text/plain'',
                                 file_size = 5 \<rparr>)) \<noteq> None"
    by (simp add: hello_key exampleState_hello)
  show ?thesis
    by (rule uploadRoute_taken [OF uploadHello_fields(1,2) uploadHello_checks taken])
qed

lemma marchState_hello:
  "getFile marchState helloKey = Some (helloRecord\<lparr>expiresAt := 1709640000000\<rparr>)"
  by (simp add: getFile_def marchState_def helloRecord_def)

lemma march_owner: "isOwner marchState helloKey ''0xAA''"
  by code_simp

lemma addDays_hello_utc:
  "addDays (timeZone exampleEnv) (max 1707912000000 (expiresAt helloRecord)) 10 = 1711281600000"
  by (simp add: newYorkEnv_fields addDays_utc helloRecord_def msPerDay_def)

lemma addDays_march_newYork:
  "addDays (timeZone newYorkEnv)
     (max 1709650000000 (expiresAt (helloRecord\<lparr>expiresAt := 1709640000000\<rparr>))) 10
     = 1710510400000"
  by (simp add: newYorkEnv_fields addDays_eq newYork2024_def msPerDay_def)

lemma renew_hello_utc:
  "renewRoute exampleEnv exampleState 1707912000000 helloKey
       (signedRequest ''POST'' (''/renew/'' @ helloKey) ''0xAA'' ''0xgood'' (Some ''paid''))
     = ((200, RenewBody helloKey 1710417600000 1711281600000),
        updateExpiresAt 1711281600000 helloKey exampleState)"
  using renewRoute_owner
          [of "signedRequest ''POST'' (''/renew/'' @ helloKey) ''0xAA'' ''0xgood'' (Some ''paid'')"
              "''0xAA''" "''0xgood''" exampleEnv helloKey exampleState helloRecord 1707912000000]
  unfolding addDays_hello_utc
  by (simp add: signedRequest_fields exampleEnv_verifies exampleState_hello hello_owner)
     (simp add: helloRecord_def)

lemma renew_march_newYork:
  "renewRoute newYorkEnv marchState 1709650000000 helloKey
       (signedRequest ''POST'' (''/renew/'' @ helloKey) ''0xAA'' ''0xgood'' (Some ''paid''))
     = ((200, RenewBody helloKey 1709640000000 1710510400000),
        updateExpiresAt 1710510400000 helloKey marchState)"
  using renewRoute_owner
          [of "signedRequest ''POST'' (''/renew/'' @ helloKey) ''0xAA'' ''0xgood'' (Some ''paid'')"
              "''0xAA''" "''0xgood''" newYorkEnv helloKey marchState
              "helloRecord\<lparr>expiresAt := 1709640000000\<rparr>" 1709650000000]
  unfolding addDays_march_newYork
  by (simp add: signedRequest_fields newYorkEnv_fields exampleEnv_verifies marchState_hello
        march_owner)

lemma upload_hello_newYork:
  "uploadRoute exampleConfig newYorkEnv initialState 1707825600000 1707825600000 uploadHello
     = ((200, UploadBody helloKey 5 1707825600000 1710414000000),
        exampleState\<lparr>files := [helloRecord\<lparr>expiresAt := 1710414000000\<rparr>]\<rparr>)"
proof -
  have stores: "s3_put newYorkEnv
     (generateFileKey 1707825600000 ''0xAA''
        (file_name \<lparr> file_name = ''hello.txt'', file_type = ''text/plain'', file_size = 5 \<rparr>))
     = Returns True"
    by (simp add: newYorkEnv_fields exampleEnv_stores)
  have free: "getFile initialState
                (generateFileKey 1707825600000 ''0xAA''
                   (file_name \<lparr> file_name = ''hello.txt'', file_type = ''text/plain'',
                                 file_size = 5 \<rparr>)) = None"
    by (simp add: getFile_def initialState_def)
  have lease: "addDays (timeZone newYorkEnv) 1707825600000 (expirationDays exampleConfig)
                 = 1710414000000"
    by (simp add: newYorkEnv_fields addDays_eq newYork2024_def exampleConfig_def msPerDay_def)
  show ?thesis
    unfolding uploadRoute_free [OF uploadHello_fields(1,2) uploadHello_checks(1) stores free] lease
    by (simp add: hello_key lower_0xAA initialState_def exampleState_def helloRecord_def)
qed

lemma exampleState_none: "getFile exampleState ''0xaa/none'' = None"
  by code_simp

lemma delete_hello:
  "deleteRoute exampleEnv exampleState helloKey
       (signedRequest ''DELETE'' (''/file/'' @ helloKey) ''0xAA'' ''0xgood'' None)
     = ((200, DeleteBody helloKey), initialState)"
  by code_simp

section \<open>Which requests the payment handler sees\<close>

text \<open>
  Claim C9. Whether a request is handed to the payment handler depends on its path alone:
  it is handed over exactly when the path is \<open>/upload\<close> or starts with \<open>/renew\<close>, whatever
  the method. So a \<open>GET\<close> of \<open>/upload\<close> and a request for \<open>/renewals\<close> are handed over too.
\<close>

theorem payment_protection_by_path_only:
  "middleware paidAware req next =
     (if path req = ''/upload'' \<or> prefix ''/renew'' (path req) then paidAware req next else next)
   \<and> middleware paidAware (req\<lparr>httpMethod := ''GET'', path := ''/upload''\<rparr>) next
       = paidAware (req\<lparr>httpMethod := ''GET'', path := ''/upload''\<rparr>) next
   \<and> middleware paidAware (req\<lparr>path := ''/renewals''\<rparr>) next
       = paidAware (req\<lparr>path := ''/renewals''\<rparr>) next"
  by (simp add: middleware_def isProtectedPath_iff)

section \<open>Listing and deleting\<close>

text \<open>
  Claim C5. A signed \<open>GET /files\<close> of wallet \<open>w\<close> at server time \<open>now\<close> answers with the
  entries of the rows \<open>activeFiles\<close> selects. Each of them is a row of the ledger whose
  stored owner is \<open>w\<close> in lower case and whose expiry has not passed at \<open>now\<close>, whether or
  not a cleanup has run, and they are ordered by upload time, newest first.
\<close>

theorem list_files_owner_order_expiry:
  assumes "present (walletAddress req) = Some w"
    and "present (signature req) = Some sg"
    and "verifyMessage env w ''list-files'' sg = Returns True"
  shows "filesRoute env s now req =
           ((200, FileList (map fileEntry (activeFiles s now w)) (length (activeFiles s now w))), s)
       \<and> (\<forall>r\<in>set (activeFiles s now w).
             r \<in> set (files s) \<and> ownerAddress r = toLowerCase w \<and> \<not> expiresAt r < now)
       \<and> sorted_wrt (\<lambda>a b. uploadedAt b \<le> uploadedAt a) (activeFiles s now w)"
  using assms activeFiles_sound [of _ s now w] activeFiles_newest_first [of s now w]
  by (simp add: filesRoute_def)

theorem list_files_owner_order_expiry_witness:
  "filesRoute exampleEnv listState 500 (signedRequest ''GET'' ''/files'' ''0xAA'' ''0xgood'' None) =
     ((200, FileList [fileEntry (row ''0xaa/400-f'' ''0xaa'' 400 2000),
                      fileEntry (row ''0xaa/100-f'' ''0xaa'' 100 1000)] 2), listState)
   \<and> activeFiles listState 500 ''0xAA'' =
       [row ''0xaa/400-f'' ''0xaa'' 400 2000, row ''0xaa/100-f'' ''0xaa'' 100 1000]"
proof -
  let ?req = "signedRequest ''GET'' ''/files'' ''0xAA'' ''0xgood'' None"
  have h1: "present (walletAddress ?req) = Some ''0xAA''"
    by (simp add: signedRequest_def)
  have h2: "present (signature ?req) = Some ''0xgood''"
    by (simp add: signedRequest_def)
  have h3: "verifyMessage exampleEnv ''0xAA'' ''list-files'' ''0xgood'' = Returns True"
    by (simp add: exampleEnv_def)
  have a: "activeFiles listState 500 ''0xAA'' =
             [row ''0xaa/400-f'' ''0xaa'' 400 2000, row ''0xaa/100-f'' ''0xaa'' 100 1000]"
    by code_simp
  from list_files_owner_order_expiry [OF h1 h2 h3, of listState 500] a
  show ?thesis
    by simp
qed

text \<open>
  Claim C7, as the code has it. At the ledger, deleting is idempotent: \<open>deleteRecord\<close> on
  a key the ledger does not hold raises nothing, reports that no row went and leaves the
  ledger as it is; after \<open>deleteRecord\<close> the key is not found, and deleting it again
  changes nothing. The route \<open>DELETE /file/key\<close> looks the key up before it deletes: for
  a key the ledger does not hold it changes nothing either, but its answer is an error,
  404 \<open>File not found\<close> for a signed request (400 or 401 otherwise). So a second
  \<open>DELETE\<close> of a deleted key is answered 404, and so is a signed \<open>GET /file/key\<close> after
  a successful \<open>DELETE\<close>.
\<close>

theorem delete_idempotent:
  "(getFile s key = None \<longrightarrow> deleteRecord key s = (False, s))
   \<and> getFile (snd (deleteRecord key s)) key = None
   \<and> deleteRecord key (snd (deleteRecord key s)) = (False, snd (deleteRecord key s))
   \<and> (getFile s key = None \<longrightarrow>
        snd (deleteRoute env s key req) = s \<and> status (deleteRoute env s key req) \<in> {400, 401, 404})
   \<and> (getFile s key = None
        \<and> present (walletAddress req) = Some wd
        \<and> present (signature req) = Some sgd
        \<and> verifyMessage env wd (''delete:'' @ key) sgd = Returns True
      \<longrightarrow> deleteRoute env s key req = ((404, ErrorBody ''File not found''), s))
   \<and> (deleteRoute env s key req = ((200, b), s')
        \<and> present (walletAddress req) = Some wd
        \<and> present (signature req) = Some sgd
        \<and> verifyMessage env wd (''delete:'' @ key) sgd = Returns True
      \<longrightarrow> deleteRoute env s' key req = ((404, ErrorBody ''File not found''), s'))
   \<and> (deleteRoute env s key req = ((200, b), s')
        \<and> present (walletAddress req') = Some w
        \<and> present (signature req') = Some sg
        \<and> verifyMessage env' w key sg = Returns True
      \<longrightarrow> getFileRoute env' s' now key req' = ((404, ErrorBody ''File not found''), s'))"
proof -
  have gone: "getFile (snd (deleteRecord key s)) key = None"
    by (rule getFile_deleteRecord)
  have absent: "snd (deleteRoute env s key req) = s
              \<and> status (deleteRoute env s key req) \<in> {400, 401, 404}"
    if "getFile s key = None"
    using that
    by (simp add: deleteRoute_def status_def split: option.splits outcome.splits bool.splits)
  have read: "getFileRoute env' s' now key req' = ((404, ErrorBody ''File not found''), s')"
    if "deleteRoute env s key req = ((200, b), s')"
      and "present (walletAddress req') = Some w"
      and "present (signature req') = Some sg"
      and "verifyMessage env' w key sg = Returns True"
    using deleteRoute_done [OF that(1)] that(2-4) by (simp add: getFileRoute_def)
  have c1: "getFile s key = None \<longrightarrow> deleteRecord key s = (False, s)"
    using deleteRecord_absent [of s key] by blast
  have c3: "deleteRecord key (snd (deleteRecord key s)) = (False, snd (deleteRecord key s))"
    by (rule deleteRecord_absent [OF gone])
  have c4: "getFile s key = None \<longrightarrow>
        snd (deleteRoute env s key req) = s \<and> status (deleteRoute env s key req) \<in> {400, 401, 404}"
    using absent by blast
  have c5: "getFile s key = None
        \<and> present (walletAddress req) = Some wd
        \<and> present (signature req) = Some sgd
        \<and> verifyMessage env wd (''delete:'' @ key) sgd = Returns True
      \<longrightarrow> deleteRoute env s key req = ((404, ErrorBody ''File not found''), s)"
    by (intro impI, elim conjE) (rule deleteRoute_absent)
  have c6: "deleteRoute env s key req = ((200, b), s')
        \<and> present (walletAddress req) = Some wd
        \<and> present (signature req) = Some sgd
        \<and> verifyMessage env wd (''delete:'' @ key) sgd = Returns True
      \<longrightarrow> deleteRoute env s' key req = ((404, ErrorBody ''File not found''), s')"
  proof (intro impI, elim conjE)
    assume first: "deleteRoute env s key req = ((200, b), s')"
      and "present (walletAddress req) = Some wd"
      and "present (signature req) = Some sgd"
      and "verifyMessage env wd (''delete:'' @ key) sgd = Returns True"
    then show "deleteRoute env s' key req = ((404, ErrorBody ''File not found''), s')"
      using deleteRoute_done [OF first] by (intro deleteRoute_absent)
  qed
  have c7: "deleteRoute env s key req = ((200, b), s')
        \<and> present (walletAddress req') = Some w
        \<and> present (signature req') = Some sg
        \<and> verifyMessage env' w key sg = Returns True
      \<longrightarrow> getFileRoute env' s' now key req' = ((404, ErrorBody ''File not found''), s')"
    by (intro impI, elim conjE) (rule read)
  from c1 gone c3 c4 c5 c6 c7 show ?thesis
    by (intro conjI)
qed

theorem delete_idempotent_witness:
  "deleteRecord ''0xaa/none'' exampleState = (False, exampleState)
   \<and> deleteRoute exampleEnv exampleState ''0xaa/none''
        (signedRequest ''DELETE'' ''/file/0xaa/none'' ''0xAA'' ''0xgood'' None)
       = ((404, ErrorBody ''File not found''), exampleState)
   \<and> deleteRoute exampleEnv exampleState helloKey
        (signedRequest ''DELETE'' (''/file/'' @ helloKey) ''0xAA'' ''0xgood'' None)
       = ((200, DeleteBody helloKey), initialState)
   \<and> deleteRoute exampleEnv initialState helloKey
        (signedRequest ''DELETE'' (''/file/'' @ helloKey) ''0xAA'' ''0xgood'' None)
       = ((404, ErrorBody ''File not found''), initialState)
   \<and> getFileRoute exampleEnv initialState 1707825600001 helloKey
        (signedRequest ''GET'' (''/file/'' @ helloKey) ''0xAA'' ''0xgood'' None)
       = ((404, ErrorBody ''File not found''), initialState)"
proof -
  let ?none = "signedRequest ''DELETE'' ''/file/0xaa/none'' ''0xAA'' ''0xgood'' None"
  let ?del = "signedRequest ''DELETE'' (''/file/'' @ helloKey) ''0xAA'' ''0xgood'' None"
  let ?get = "signedRequest ''GET'' (''/file/'' @ helloKey) ''0xAA'' ''0xgood'' None"
  note fields = signedRequest_fields exampleEnv_verifies
  from delete_idempotent [where s = exampleState and key = "''0xaa/none''" and env = exampleEnv
         and req = ?none and wd = "''0xAA''" and sgd = "''0xgood''"] exampleState_none
  have first: "deleteRecord ''0xaa/none'' exampleState = (False, exampleState)
             \<and> deleteRoute exampleEnv exampleState ''0xaa/none'' ?none
                 = ((404, ErrorBody ''File not found''), exampleState)"
    by (simp add: fields)
  from delete_idempotent [where s = exampleState and key = helloKey and env = exampleEnv
         and req = ?del and b = "DeleteBody helloKey" and s' = initialState
         and wd = "''0xAA''" and sgd = "''0xgood''"
         and req' = ?get and w = "''0xAA''" and sg = "''0xgood''" and env' = exampleEnv
         and now = 1707825600001] delete_hello
  have after: "deleteRoute exampleEnv initialState helloKey ?del
                 = ((404, ErrorBody ''File not found''), initialState)
             \<and> getFileRoute exampleEnv initialState 1707825600001 helloKey ?get
                 = ((404, ErrorBody ''File not found''), initialState)"
    by (simp add: fields)
  from first delete_hello after show ?thesis
    by simp
qed

text \<open>
  The claim as the specification words it fails: a signed \<open>DELETE\<close> of a key the ledger
  does not hold is answered with the error 404 \<open>File not found\<close>; and after the owner's
  \<open>DELETE\<close> of \<open>hello.txt\<close> has answered 200, the same request again is answered 404.
\<close>

theorem delete_absent_key_is_404:
  "getFile exampleState ''0xaa/none'' = None
   \<and> app exampleConfig exampleEnv exampleState 1707825600001 1707825600001
         (signedRequest ''DELETE'' ''/file/0xaa/none'' ''0xAA'' ''0xgood'' None)
       = ((404, ErrorBody ''File not found''), exampleState)
   \<and> app exampleConfig exampleEnv exampleState 1707825600001 1707825600001
         (signedRequest ''DELETE'' (''/file/'' @ helloKey) ''0xAA'' ''0xgood'' None)
       = ((200, DeleteBody helloKey), initialState)
   \<and> app exampleConfig exampleEnv initialState 1707825600002 1707825600002
         (signedRequest ''DELETE'' (''/file/'' @ helloKey) ''0xAA'' ''0xgood'' None)
       = ((404, ErrorBody ''File not found''), initialState)"
proof -
  let ?none = "signedRequest ''DELETE'' ''/file/0xaa/none'' ''0xAA'' ''0xgood'' None"
  let ?del = "signedRequest ''DELETE'' (''/file/'' @ helloKey) ''0xAA'' ''0xgood'' None"
  have a: "app exampleConfig exampleEnv exampleState 1707825600001 1707825600001 ?none
             = ((404, ErrorBody ''File not found''), exampleState)"
    using app_delete [of ?none "''0xaa/none''" exampleConfig exampleEnv exampleState
            1707825600001 1707825600001]
      deleteRoute_absent [of ?none "''0xAA''" "''0xgood''" exampleEnv "''0xaa/none''" exampleState]
      exampleState_none
    by (simp add: signedRequest_fields exampleEnv_verifies)
  have b: "app exampleConfig exampleEnv exampleState 1707825600001 1707825600001 ?del
             = ((200, DeleteBody helloKey), initialState)"
    using app_delete [of ?del helloKey exampleConfig exampleEnv exampleState
            1707825600001 1707825600001] delete_hello
    by (simp add: signedRequest_fields helloKey_nonempty)
  have c: "app exampleConfig exampleEnv initialState 1707825600002 1707825600002 ?del
             = ((404, ErrorBody ''File not found''), initialState)"
    using app_delete [of ?del helloKey exampleConfig exampleEnv initialState
            1707825600002 1707825600002]
      deleteRoute_absent [of ?del "''0xAA''" "''0xgood''" exampleEnv helloKey initialState]
    by (simp add: signedRequest_fields helloKey_nonempty exampleEnv_verifies getFile_def
          initialState_def)
  from exampleState_none a b c show ?thesis
    by simp
qed

section \<open>Signatures and renewal\<close>

text \<open>
  Claim C8. In each of the five signature-gated handlers a verification that raises is
  caught: the handler answers 401 and leaves the state alone, as it does when the
  verification returns false. No input makes a handler fail: a handler is a total function
  that answers every request.
\<close>

theorem signature_failure_is_401:
  assumes "present (walletAddress req) = Some w"
    and "present (signature req) = Some sg"
  shows
    "(verifyMessage env w key sg = Throws \<longrightarrow>
        getFileRoute env s now key req = ((401, ErrorBody ''Signature verification failed''), s)
      \<and> fileInfoRoute env s now key req = ((401, ErrorBody ''Signature verification failed''), s))
   \<and> (verifyMessage env w key sg = Returns False \<longrightarrow>
        getFileRoute env s now key req = ((401, ErrorBody ''Invalid signature''), s)
      \<and> fileInfoRoute env s now key req = ((401, ErrorBody ''Invalid signature''), s))
   \<and> (verifyMessage env w ''list-files'' sg = Throws \<longrightarrow>
        filesRoute env s now req = ((401, ErrorBody ''Signature verification failed''), s))
   \<and> (verifyMessage env w ''list-files'' sg = Returns False \<longrightarrow>
        filesRoute env s now req = ((401, ErrorBody ''Invalid signature''), s))
   \<and> (verifyMessage env w (''delete:'' @ key) sg = Throws \<longrightarrow>
        deleteRoute env s key req = ((401, ErrorBody ''Signature verification failed''), s))
   \<and> (verifyMessage env w (''delete:'' @ key) sg = Returns False \<longrightarrow>
        deleteRoute env s key req = ((401, ErrorBody ''Invalid signature''), s))
   \<and> (verifyMessage env w (''renew:'' @ key) sg = Throws \<longrightarrow>
        renewRoute env s now key req = ((401, ErrorBody ''Signature verification failed''), s))
   \<and> (verifyMessage env w (''renew:'' @ key) sg = Returns False \<longrightarrow>
        renewRoute env s now key req = ((401, ErrorBody ''Invalid signature''), s))"
  using assms
  by (simp add: getFileRoute_def fileInfoRoute_def filesRoute_def deleteRoute_def renewRoute_def)

theorem signature_failure_is_401_witness:
  "getFileRoute exampleEnv exampleState 1707825600001 helloKey
       (signedRequest ''GET'' (''/file/'' @ helloKey) ''0xAA'' ''0xzz'' None)
     = ((401, ErrorBody ''Signature verification failed''), exampleState)
   \<and> renewRoute exampleEnv exampleState 1707825600001 helloKey
       (signedRequest ''POST'' (''/renew/'' @ helloKey) ''0xAA'' ''0xbad'' (Some ''paid''))
     = ((401, ErrorBody ''Invalid signature''), exampleState)"
proof -
  let ?get = "signedRequest ''GET'' (''/file/'' @ helloKey) ''0xAA'' ''0xzz'' None"
  let ?renew = "signedRequest ''POST'' (''/renew/'' @ helloKey) ''0xAA'' ''0xbad'' (Some ''paid'')"
  have g1: "present (walletAddress ?get) = Some ''0xAA''"
    and g2: "present (signature ?get) = Some ''0xzz''"
    and r1: "present (walletAddress ?renew) = Some ''0xAA''"
    and r2: "present (signature ?renew) = Some ''0xbad''"
    by (simp_all add: signedRequest_def)
  have raises: "verifyMessage exampleEnv ''0xAA'' helloKey ''0xzz'' = Throws"
    by (simp add: exampleEnv_def)
  have rejects: "verifyMessage exampleEnv ''0xAA'' (''renew:'' @ helloKey) ''0xbad'' = Returns False"
    by (simp add: exampleEnv_def)
  from signature_failure_is_401 [OF g1 g2, of exampleEnv helloKey exampleState 1707825600001] raises
  have a: "getFileRoute exampleEnv exampleState 1707825600001 helloKey ?get
             = ((401, ErrorBody ''Signature verification failed''), exampleState)"
    by simp
  from signature_failure_is_401 [OF r1 r2, of exampleEnv helloKey exampleState 1707825600001] rejects
  have b: "renewRoute exampleEnv exampleState 1707825600001 helloKey ?renew
             = ((401, ErrorBody ''Invalid signature''), exampleState)"
    by simp
  from a b show ?thesis
    by simp
qed

text \<open>
  Claim C2, as the code has it. A renewal of an existing record by its owner sets the
  expiry to the later of the server time and the current expiry, moved on by ten calendar
  days of the server's local time zone: the number 10 is written into the route and the
  configured \<open>expirationDays\<close> is not read. The new expiry is ten times 24 hours after that
  instant plus the difference of the zone's offsets at the two ends. Where the two offsets
  are equal (always, in a zone with a fixed offset), it is exactly ten times 24 hours
  later, not before the old expiry and not before ten days from now. Where the offset
  moves forward by no more than ten days, it is still not before the old expiry and not
  before now.
\<close>

theorem renew_extends_by_ten_days:
  fixes env :: env and now :: timestamp and rec :: FileRecord
  defines "z \<equiv> timeZone env"
    and "m \<equiv> max now (expiresAt rec)"
  assumes "present (walletAddress req) = Some w"
    and "present (signature req) = Some sg"
    and "verifyMessage env w (''renew:'' @ key) sg = Returns True"
    and "getFile s key = Some rec"
    and "isOwner s key w"
  shows "renewRoute env s now key req =
           ((200, RenewBody key (expiresAt rec) (addDays z m 10)),
            updateExpiresAt (addDays z m 10) key s)
       \<and> getFile (updateExpiresAt (addDays z m 10) key s) key
           = Some (rec\<lparr>expiresAt := addDays z m 10\<rparr>)
       \<and> addDays z m 10
           = m + 10 * msPerDay
               + (offsetAtUtc z m - offsetAtLocal z (m + offsetAtUtc z m + 10 * msPerDay))
       \<and> (offsetAtLocal z (m + offsetAtUtc z m + 10 * msPerDay) = offsetAtUtc z m \<longrightarrow>
             addDays z m 10 = m + 10 * msPerDay
           \<and> expiresAt rec \<le> addDays z m 10
           \<and> now + 10 * msPerDay \<le> addDays z m 10)
       \<and> (offsetAtLocal z (m + offsetAtUtc z m + 10 * msPerDay) - offsetAtUtc z m
             \<le> 10 * msPerDay \<longrightarrow>
             expiresAt rec \<le> addDays z m 10 \<and> now \<le> addDays z m 10)"
proof -
  have route: "renewRoute env s now key req =
           ((200, RenewBody key (expiresAt rec) (addDays z m 10)),
            updateExpiresAt (addDays z m 10) key s)"
    unfolding z_def m_def by (rule renewRoute_owner [OF assms(3-7)])
  have stored: "getFile (updateExpiresAt (addDays z m 10) key s) key
                  = Some (rec\<lparr>expiresAt := addDays z m 10\<rparr>)"
    by (rule getFile_updateExpiresAt [OF assms(6)])
  have days: "(0::int) \<le> 10 * msPerDay"
    by (simp add: msPerDay_def)
  have later: "expiresAt rec \<le> m" "now \<le> m"
    by (simp_all add: m_def)
  have equal: "addDays z m 10 = m + 10 * msPerDay
             \<and> expiresAt rec \<le> addDays z m 10
             \<and> now + 10 * msPerDay \<le> addDays z m 10"
    if "offsetAtLocal z (m + offsetAtUtc z m + 10 * msPerDay) = offsetAtUtc z m"
    using addDays_same_offset [OF that] days later by simp
  have bounded: "expiresAt rec \<le> addDays z m 10 \<and> now \<le> addDays z m 10"
    if "offsetAtLocal z (m + offsetAtUtc z m + 10 * msPerDay) - offsetAtUtc z m \<le> 10 * msPerDay"
    using that later unfolding addDays_eq [of z m 10] by linarith
  from route stored addDays_eq [of z m 10] equal bounded show ?thesis
    by blast
qed

theorem renew_extends_by_ten_days_witness:
  "renewRoute exampleEnv exampleState 1707912000000 helloKey
       (signedRequest ''POST'' (''/renew/'' @ helloKey) ''0xAA'' ''0xgood'' (Some ''paid''))
     = ((200, RenewBody helloKey 1710417600000 1711281600000),
        updateExpiresAt 1711281600000 helloKey exampleState)
   \<and> getFile (updateExpiresAt 1711281600000 helloKey exampleState) helloKey
       = Some (helloRecord\<lparr>expiresAt := 1711281600000\<rparr>)
   \<and> renewRoute newYorkEnv marchState 1709650000000 helloKey
       (signedRequest ''POST'' (''/renew/'' @ helloKey) ''0xAA'' ''0xgood'' (Some ''paid''))
     = ((200, RenewBody helloKey 1709640000000 1710510400000),
        updateExpiresAt 1710510400000 helloKey marchState)"
proof -
  let ?renew = "signedRequest ''POST'' (''/renew/'' @ helloKey) ''0xAA'' ''0xgood'' (Some ''paid'')"
  have h1: "present (walletAddress ?renew) = Some ''0xAA''"
    and h2: "present (signature ?renew) = Some ''0xgood''"
    by (simp_all add: signedRequest_def)
  have h3: "verifyMessage exampleEnv ''0xAA'' (''renew:'' @ helloKey) ''0xgood'' = Returns True"
    by (simp add: exampleEnv_verifies)
  have h3': "verifyMessage newYorkEnv ''0xAA'' (''renew:'' @ helloKey) ''0xgood'' = Returns True"
    by (simp add: newYorkEnv_fields exampleEnv_verifies)
  from renew_extends_by_ten_days [OF h1 h2 h3 exampleState_hello hello_owner(1), of 1707912000000]
  have utc: "renewRoute exampleEnv exampleState 1707912000000 helloKey ?renew
               = ((200, RenewBody helloKey 1710417600000 1711281600000),
                  updateExpiresAt 1711281600000 helloKey exampleState)
           \<and> getFile (updateExpiresAt 1711281600000 helloKey exampleState) helloKey
               = Some (helloRecord\<lparr>expiresAt := 1711281600000\<rparr>)"
    unfolding addDays_hello_utc by (simp add: helloRecord_def)
  from renew_extends_by_ten_days [OF h1 h2 h3' marchState_hello march_owner, of 1709650000000]
  have ny: "renewRoute newYorkEnv marchState 1709650000000 helloKey ?renew
              = ((200, RenewBody helloKey 1709640000000 1710510400000),
                 updateExpiresAt 1710510400000 helloKey marchState)"
    unfolding addDays_march_newYork by simp
  from utc ny show ?thesis
    by simp
qed

text \<open>
  The claim as the specification words it fails. On a server in UTC configured for leases
  of 30 days, the owner's paid renewal one day after the upload moves the expiry from
  1710417600000 to 1711281600000, ten days on, and not to 1713009600000, the old expiry
  plus the configured lease duration. On a server in New York with the default
  configuration of 10 days, the paid renewal of a just expired record on 5 March 2024 sets
  the expiry to 1710510400000, one hour short of the 1710514000000 that is now plus the
  lease duration, because the clocks go forward on 10 March.
\<close>

theorem renew_ignores_configured_duration:
  "expirationDays exampleConfig = 30
   \<and> app exampleConfig exampleEnv exampleState 1707912000000 1707912000000
         (signedRequest ''POST'' (''/renew/'' @ helloKey) ''0xAA'' ''0xgood'' (Some ''paid''))
       = ((200, RenewBody helloKey 1710417600000 1711281600000),
          updateExpiresAt 1711281600000 helloKey exampleState)
   \<and> max 1707912000000 1710417600000 + leaseDuration exampleConfig = 1713009600000
   \<and> app defaultConfig newYorkEnv marchState 1709650000000 1709650000000
         (signedRequest ''POST'' (''/renew/'' @ helloKey) ''0xAA'' ''0xgood'' (Some ''paid''))
       = ((200, RenewBody helloKey 1709640000000 1710510400000),
          updateExpiresAt 1710510400000 helloKey marchState)
   \<and> max 1709650000000 1709640000000 + leaseDuration defaultConfig = 1710514000000"
proof -
  let ?renew = "signedRequest ''POST'' (''/renew/'' @ helloKey) ''0xAA'' ''0xgood'' (Some ''paid'')"
  have "app exampleConfig exampleEnv exampleState 1707912000000 1707912000000 ?renew
          = ((200, RenewBody helloKey 1710417600000 1711281600000),
             updateExpiresAt 1711281600000 helloKey exampleState)"
    using renew_hello_utc
      app_renew [of ?renew helloKey exampleConfig exampleEnv exampleState
            1707912000000 1707912000000]
    by (simp add: signedRequest_fields helloKey_nonempty exampleEnv_settles)
  moreover have "app defaultConfig newYorkEnv marchState 1709650000000 1709650000000 ?renew
          = ((200, RenewBody helloKey 1709640000000 1710510400000),
             updateExpiresAt 1710510400000 helloKey marchState)"
    using renew_march_newYork
      app_renew [of ?renew helloKey defaultConfig newYorkEnv marchState
            1709650000000 1709650000000]
    by (simp add: signedRequest_fields helloKey_nonempty newYorkEnv_fields exampleEnv_settles)
  moreover have "max 1707912000000 1710417600000 + leaseDuration exampleConfig = 1713009600000"
    by (simp add: leaseDuration_def exampleConfig_def msPerDay_def)
  moreover have "max 1709650000000 1709640000000 + leaseDuration defaultConfig = 1710514000000"
    by (simp add: leaseDuration_def defaultConfig_def msPerDay_def)
  moreover have "expirationDays exampleConfig = 30"
    by (simp add: exampleConfig_def)
  ultimately show ?thesis
    by simp
qed

section \<open>Uploading\<close>

text \<open>
  Claim C6, as the code has it. \<open>recordUpload\<close> raises the store's primary-key error
  when the key is taken, and the ledger stays as it was; otherwise it appends the row, the
  owner in lower case. An upload that reaches the insert (identity header, a file within
  the size limit, blob stored) answers a taken key with the generic 500
  \<open>Failed to upload file\<close> and an unchanged ledger: the code has no Conflict outcome.
  With a free key it answers 200 and stores the row; its expiry is the upload time moved on
  by the configured number of calendar days of the server's local time zone. That is the
  upload time plus the lease duration, plus the difference of the zone's offsets at the
  two ends: exactly \<open>uploadedAt + leaseDuration\<close> where the two offsets are equal (always,
  in a zone with a fixed offset).
\<close>

theorem create_duplicate_key:
  fixes env :: env and serverTime :: timestamp and cfg :: config
  defines "z \<equiv> timeZone env"
    and "expiry \<equiv> addDays (timeZone env) serverTime (expirationDays cfg)"
  shows
  "(getFile s (fileKey rec) \<noteq> None \<longrightarrow> recordUpload rec s = Inl SqliteConstraintPrimaryKey)
   \<and> (getFile s (fileKey rec) = None \<longrightarrow>
        recordUpload rec s =
          Inr (s\<lparr>files := files s @ [rec\<lparr>ownerAddress := toLowerCase (ownerAddress rec)\<rparr>]\<rparr>))
   \<and> (present (walletAddress req) = Some w
        \<and> formData req = FormFields (Some f)
        \<and> file_size f \<le> maxSizeBytes cfg
        \<and> s3_put env (generateFileKey keyTime w (file_name f)) = Returns True
      \<longrightarrow>
        (getFile s (generateFileKey keyTime w (file_name f)) \<noteq> None \<longrightarrow>
           uploadRoute cfg env s keyTime serverTime req
             = ((500, ErrorBody ''Failed to upload file''), s))
      \<and> (getFile s (generateFileKey keyTime w (file_name f)) = None \<longrightarrow>
           uploadRoute cfg env s keyTime serverTime req
             = ((200, UploadBody (generateFileKey keyTime w (file_name f)) (file_size f)
                        serverTime expiry),
                s\<lparr>files := files s @
                   [\<lparr> fileKey = generateFileKey keyTime w (file_name f),
                      ownerAddress = toLowerCase w,
                      originalFilename = file_name f,
                      contentType = (if file_type f = [] then ''application/octet-stream''
                                     else file_type f),
                      size_bytes = file_size f,
                      uploadedAt = serverTime,
                      expiresAt = expiry \<rparr>]\<rparr>)))
   \<and> expiry
       = serverTime + leaseDuration cfg
           + (offsetAtUtc z serverTime
                - offsetAtLocal z (serverTime + offsetAtUtc z serverTime + leaseDuration cfg))
   \<and> (offsetAtLocal z (serverTime + offsetAtUtc z serverTime + leaseDuration cfg)
          = offsetAtUtc z serverTime
        \<longrightarrow> expiry = serverTime + leaseDuration cfg)"
proof -
  have formula: "expiry
       = serverTime + leaseDuration cfg
           + (offsetAtUtc z serverTime
                - offsetAtLocal z (serverTime + offsetAtUtc z serverTime + leaseDuration cfg))"
    unfolding expiry_def z_def leaseDuration_def by (rule addDays_eq)
  have route: "present (walletAddress req) = Some w
        \<and> formData req = FormFields (Some f)
        \<and> file_size f \<le> maxSizeBytes cfg
        \<and> s3_put env (generateFileKey keyTime w (file_name f)) = Returns True
      \<longrightarrow>
        (getFile s (generateFileKey keyTime w (file_name f)) \<noteq> None \<longrightarrow>
           uploadRoute cfg env s keyTime serverTime req
             = ((500, ErrorBody ''Failed to upload file''), s))
      \<and> (getFile s (generateFileKey keyTime w (file_name f)) = None \<longrightarrow>
           uploadRoute cfg env s keyTime serverTime req
             = ((200, UploadBody (generateFileKey keyTime w (file_name f)) (file_size f)
                        serverTime expiry),
                s\<lparr>files := files s @
                   [\<lparr> fileKey = generateFileKey keyTime w (file_name f),
                      ownerAddress = toLowerCase w,
                      originalFilename = file_name f,
                      contentType = (if file_type f = [] then ''application/octet-stream''
                                     else file_type f),
                      size_bytes = file_size f,
                      uploadedAt = serverTime,
                      expiresAt = expiry \<rparr>]\<rparr>))"
    unfolding expiry_def by (simp add: uploadRoute_taken uploadRoute_free)
  from route formula show ?thesis
    by (simp add: recordUpload_taken recordUpload_free)
qed

theorem create_duplicate_key_witness:
  "recordUpload helloRecord exampleState = Inl SqliteConstraintPrimaryKey
   \<and> uploadRoute exampleConfig exampleEnv exampleState 1707825600000 1707825600007 uploadHello
       = ((500, ErrorBody ''Failed to upload file''), exampleState)
   \<and> uploadRoute exampleConfig exampleEnv initialState 1707825600000 1707825600000 uploadHello
       = ((200, UploadBody helloKey 5 1707825600000 1710417600000), exampleState)
   \<and> addDays (timeZone exampleEnv) 1707825600000 (expirationDays exampleConfig)
       = 1707825600000 + leaseDuration exampleConfig
   \<and> addDays (timeZone newYorkEnv) 1707825600000 (expirationDays exampleConfig)
       = 1707825600000 + leaseDuration exampleConfig - 3600000"
proof -
  let ?f = "\<lparr> file_name = ''hello.txt'', file_type = ''text/plain'', file_size = 5 \<rparr>"
  have taken: "getFile exampleState helloKey \<noteq> None"
    by (simp add: exampleState_hello)
  have free: "getFile initialState helloKey = None"
    by (simp add: getFile_def initialState_def)
  have key: "fileKey helloRecord = helloKey"
    by (simp add: helloRecord_def)
  have size: "file_size ?f \<le> maxSizeBytes exampleConfig"
    by (simp add: exampleConfig_def)
  have lease: "leaseDuration exampleConfig = 2592000000"
    by (simp add: leaseDuration_def exampleConfig_def msPerDay_def)
  have utc: "addDays (timeZone exampleEnv) 1707825600000 (expirationDays exampleConfig)
               = 1710417600000"
    by (simp add: newYorkEnv_fields addDays_utc exampleConfig_def msPerDay_def)
  from create_duplicate_key [of exampleState helloRecord] taken key
  have a: "recordUpload helloRecord exampleState = Inl SqliteConstraintPrimaryKey"
    by simp
  from create_duplicate_key [where s = exampleState and rec = helloRecord and req = uploadHello
         and w = "''0xAA''" and f = ?f and cfg = exampleConfig and env = exampleEnv
         and keyTime = 1707825600000 and serverTime = 1707825600007] taken size
  have b: "uploadRoute exampleConfig exampleEnv exampleState 1707825600000 1707825600007 uploadHello
             = ((500, ErrorBody ''Failed to upload file''), exampleState)"
    by (simp add: uploadHello_fields exampleEnv_stores hello_key)
  from create_duplicate_key [where s = initialState and rec = helloRecord and req = uploadHello
         and w = "''0xAA''" and f = ?f and cfg = exampleConfig and env = exampleEnv
         and keyTime = 1707825600000 and serverTime = 1707825600000] free size
  have c: "uploadRoute exampleConfig exampleEnv initialState 1707825600000 1707825600000 uploadHello
             = ((200, UploadBody helloKey 5 1707825600000 1710417600000), exampleState)"
    unfolding utc
    by (simp add: uploadHello_fields exampleEnv_stores hello_key lower_0xAA)
       (simp add: initialState_def exampleState_def helloRecord_def)
  from create_duplicate_key [where env = exampleEnv and cfg = exampleConfig
         and serverTime = 1707825600000]
  have d: "addDays (timeZone exampleEnv) 1707825600000 (expirationDays exampleConfig)
             = 1707825600000 + leaseDuration exampleConfig"
    by (simp add: newYorkEnv_fields utcZone_def)
  from create_duplicate_key [where env = newYorkEnv and cfg = exampleConfig
         and serverTime = 1707825600000]
  have e: "addDays (timeZone newYorkEnv) 1707825600000 (expirationDays exampleConfig)
             = 1707825600000 + leaseDuration exampleConfig - 3600000"
    by (simp add: newYorkEnv_fields newYork2024_def lease)
  from a b c d e show ?thesis
    by simp
qed

text \<open>
  The claim as the specification words it fails. Uploading \<open>hello.txt\<close> a second time
  within the same millisecond produces the key the ledger already holds, and the answer
  is 500 \<open>Failed to upload file\<close>, the answer of any failed upload, not a Conflict. And on
  a server in New York configured for leases of 30 days, the upload of 13 February 2024
  expires at 1710414000000, one hour before the 1710417600000 that is the upload time
  plus the lease duration, because the clocks go forward on 10 March.
\<close>

theorem duplicate_key_upload_is_500:
  "getFile exampleState helloKey = Some helloRecord
   \<and> uploadRoute exampleConfig exampleEnv exampleState 1707825600000 1707825600007 uploadHello
       = ((500, ErrorBody ''Failed to upload file''), exampleState)
   \<and> app exampleConfig exampleEnv exampleState 1707825600000 1707825600007 uploadHello
       = ((500, ErrorBody ''Failed to upload file''), exampleState)
   \<and> uploadRoute exampleConfig newYorkEnv initialState 1707825600000 1707825600000 uploadHello
       = ((200, UploadBody helloKey 5 1707825600000 1710414000000),
          exampleState\<lparr>files := [helloRecord\<lparr>expiresAt := 1710414000000\<rparr>]\<rparr>)
   \<and> 1707825600000 + leaseDuration exampleConfig = 1710417600000"
proof -
  have taken: "getFile exampleState helloKey = Some helloRecord"
    by (rule exampleState_hello)
  have r: "uploadRoute exampleConfig exampleEnv exampleState 1707825600000 1707825600007 uploadHello
             = ((500, ErrorBody ''Failed to upload file''), exampleState)"
    by (rule upload_hello_again)
  have "app exampleConfig exampleEnv exampleState 1707825600000 1707825600007 uploadHello
          = uploadRoute exampleConfig exampleEnv exampleState 1707825600000 1707825600007 uploadHello"
    by (simp add: app_def middleware_def isProtectedPath_iff paidAwareMiddleware_def
          routeRequiresPayment_def router_def uploadHello_fields exampleEnv_settles)
  moreover have "1707825600000 + leaseDuration exampleConfig = 1710417600000"
    by (simp add: leaseDuration_def exampleConfig_def msPerDay_def)
  ultimately show ?thesis
    using taken r upload_hello_newYork by simp
qed

text \<open>
  Claim C3, as the code has it. The key of a successful upload by identity \<open>w\<close> of a
  file named \<open>N\<close> is \<open>w\<close> in lower case, a slash, the server's millisecond timestamp
  in decimal, a hyphen, and \<open>N\<close> with every character replaced by an underscore that is
  not a letter, a digit, a dot, an underscore or a hyphen. The row stored under the key
  carries the owner in lower case.
\<close>

theorem upload_key_format:
  assumes "uploadRoute cfg env s keyTime serverTime req = ((200, b), s')"
  shows "\<exists>w f key.
           walletAddress req = Some w
         \<and> formData req = FormFields (Some f)
         \<and> key = toLowerCase w @ ''/'' @ numberToString keyTime @ ''-''
                   @ map (\<lambda>c. if alphanumericChar c \<or> c = CHR ''.'' \<or> c = CHR ''_''
                                   \<or> c = CHR ''-'' then c else CHR ''_'') (file_name f)
         \<and> b = UploadBody key (file_size f) serverTime (addDays (timeZone env) serverTime (expirationDays cfg))
         \<and> map_option fileKey (getFile s' key) = Some key
         \<and> map_option ownerAddress (getFile s' key) = Some (toLowerCase w)"
proof -
  from upload_ok_cases [OF assms] obtain w f where
    w: "present (walletAddress req) = Some w"
    and f: "formData req = FormFields (Some f)"
    and b: "b = UploadBody (generateFileKey keyTime w (file_name f)) (file_size f)
                 serverTime (addDays (timeZone env) serverTime (expirationDays cfg))"
    and ins: "recordUpload
               \<lparr> fileKey = generateFileKey keyTime w (file_name f),
                 ownerAddress = w,
                 originalFilename = file_name f,
                 contentType = (if file_type f = [] then ''application/octet-stream''
                                else file_type f),
                 size_bytes = file_size f,
                 uploadedAt = serverTime,
                 expiresAt = addDays (timeZone env) serverTime (expirationDays cfg) \<rparr> s = Inr s'"
    by blast
  have w': "walletAddress req = Some w"
    using w by (cases "walletAddress req") (auto split: if_splits)
  define key where "key = generateFileKey keyTime w (file_name f)"
  have keyeq: "key = toLowerCase w @ ''/'' @ numberToString keyTime @ ''-''
                 @ map (\<lambda>c. if alphanumericChar c \<or> c = CHR ''.'' \<or> c = CHR ''_''
                                 \<or> c = CHR ''-'' then c else CHR ''_'') (file_name f)"
    by (simp add: key_def generateFileKey_def sanitizeFilename_def keptChar_iff)
  have b': "b = UploadBody key (file_size f) serverTime (addDays (timeZone env) serverTime (expirationDays cfg))"
    using b by (simp add: key_def)
  have stored: "getFile s' key \<noteq> None
              \<and> map_option fileKey (getFile s' key) = Some key
              \<and> map_option ownerAddress (getFile s' key) = Some (toLowerCase w)"
    using recordUpload_stored [OF ins] by (simp add: key_def)
  from w' f keyeq b' stored show ?thesis
    by blast
qed

theorem upload_key_format_witness:
  "\<exists>w f key.
      walletAddress uploadHello = Some w
    \<and> formData uploadHello = FormFields (Some f)
    \<and> key = toLowerCase w @ ''/'' @ numberToString 1707825600000 @ ''-''
              @ map (\<lambda>c. if alphanumericChar c \<or> c = CHR ''.'' \<or> c = CHR ''_''
                              \<or> c = CHR ''-'' then c else CHR ''_'') (file_name f)
    \<and> UploadBody helloKey 5 1707825600000 1710417600000
        = UploadBody key (file_size f) 1707825600000
            (addDays (timeZone exampleEnv) 1707825600000 (expirationDays exampleConfig))
    \<and> map_option fileKey (getFile exampleState key) = Some key
    \<and> map_option ownerAddress (getFile exampleState key) = Some (toLowerCase w)"
  by (rule upload_key_format [OF upload_hello])

text \<open>
  The claim as the specification words it fails: the upload of \<open>hello.txt\<close> by \<open>0xAA\<close>
  gets the key \<open>0xaa/1707825600000-hello.txt\<close>, the dot kept, where replacing every
  character that is not a letter or a digit would give \<open>0xaa/1707825600000-hello_txt\<close>.
\<close>

theorem upload_key_keeps_dot:
  "uploadRoute exampleConfig exampleEnv initialState 1707825600000 1707825600000 uploadHello
     = ((200, UploadBody ''0xaa/1707825600000-hello.txt'' 5 1707825600000 1710417600000),
        exampleState)
   \<and> specFileKey 1707825600000 ''0xAA'' ''hello.txt'' = ''0xaa/1707825600000-hello_txt''"
proof -
  have "specFileKey 1707825600000 ''0xAA'' ''hello.txt'' = ''0xaa/1707825600000-hello_txt''"
    by code_simp
  with upload_hello show ?thesis
    by (simp add: helloKey_def)
qed

section \<open>Payment before everything else\<close>

text \<open>
  Claim C4. The answer to a request and the ledger it leaves are the same whatever the set
  \<open>paidAddresses\<close> holds: two runs that differ only in who paid before end alike. A priced
  request (\<open>POST /upload\<close>, \<open>POST /renew/...\<close>) without a proof the facilitator settles
  is answered with the 402 challenge even when an address has been recorded as paid, and
  also when it follows another request, paid or not: nobody bypasses payment the second
  time.
\<close>

theorem payment_ignores_paidAddresses:
  "fst (app cfg env (s\<lparr>paidAddresses := P\<rparr>) keyTime now req)
     = fst (app cfg env (s\<lparr>paidAddresses := Q\<rparr>) keyTime now req)
   \<and> files (snd (app cfg env (s\<lparr>paidAddresses := P\<rparr>) keyTime now req))
     = files (snd (app cfg env (s\<lparr>paidAddresses := Q\<rparr>) keyTime now req))
   \<and> (routeRequiresPayment req
        \<and> (payment req = None \<or> (\<exists>p. payment req = Some p \<and> \<not> facilitator env p))
      \<longrightarrow> app cfg env (recordPaid a s) keyTime now req
            = ((402, PaymentChallenge), recordPaid a s)
        \<and> app cfg env (snd (app cfg' env' s keyTime' now' req')) keyTime now req
            = ((402, PaymentChallenge), snd (app cfg' env' s keyTime' now' req')))"
  using app_unpaid [of req env cfg "recordPaid a s" keyTime now]
    app_unpaid [of req env cfg "snd (app cfg' env' s keyTime' now' req')" keyTime now]
  by (simp add: app_ignores_paid)

theorem payment_ignores_paidAddresses_witness:
  "hasPaid (recordPaid ''0xAA'' exampleState) ''0xAA''
   \<and> app exampleConfig exampleEnv (recordPaid ''0xAA'' exampleState) 1707825600001 1707825600002
         (uploadHello\<lparr>payment := None\<rparr>)
       = ((402, PaymentChallenge), recordPaid ''0xAA'' exampleState)
   \<and> app exampleConfig exampleEnv
         (snd (app exampleConfig exampleEnv initialState 1707825600000 1707825600000 uploadHello))
         1707825600001 1707825600002 (uploadHello\<lparr>payment := None\<rparr>)
       = ((402, PaymentChallenge),
          snd (app exampleConfig exampleEnv initialState 1707825600000 1707825600000 uploadHello))"
proof -
  have priced: "routeRequiresPayment (uploadHello\<lparr>payment := None\<rparr>)"
    by (simp add: routeRequiresPayment_def uploadHello_def)
  have unpaid: "payment (uploadHello\<lparr>payment := None\<rparr>) = None"
    by simp
  have paid: "hasPaid (recordPaid ''0xAA'' exampleState) ''0xAA''"
    by (simp add: hasPaid_def recordPaid_def)
  from payment_ignores_paidAddresses
         [where cfg = exampleConfig and env = exampleEnv and s = initialState
            and keyTime = 1707825600001 and now = 1707825600002
            and req = "uploadHello\<lparr>payment := None\<rparr>" and a = "''0xAA''"
            and cfg' = exampleConfig and env' = exampleEnv
            and keyTime' = 1707825600000 and now' = 1707825600000 and req' = uploadHello]
    priced unpaid
  have second: "app exampleConfig exampleEnv
         (snd (app exampleConfig exampleEnv initialState 1707825600000 1707825600000 uploadHello))
         1707825600001 1707825600002 (uploadHello\<lparr>payment := None\<rparr>)
       = ((402, PaymentChallenge),
          snd (app exampleConfig exampleEnv initialState 1707825600000 1707825600000 uploadHello))"
    by simp
  from payment_ignores_paidAddresses
         [where cfg = exampleConfig and env = exampleEnv and s = exampleState
            and keyTime = 1707825600001 and now = 1707825600002
            and req = "uploadHello\<lparr>payment := None\<rparr>" and a = "''0xAA''"]
    priced unpaid
  have recorded: "app exampleConfig exampleEnv (recordPaid ''0xAA'' exampleState)
         1707825600001 1707825600002 (uploadHello\<lparr>payment := None\<rparr>)
       = ((402, PaymentChallenge), recordPaid ''0xAA'' exampleState)"
    by simp
  from paid recorded second show ?thesis
    by simp
qed

text \<open>
  Claim C1, as the code has it. The payment middleware runs before the renewal route, so
  payment is asked for before ownership is looked at: a \<open>POST /renew/key\<close> without a
  proof the facilitator settles is answered with the 402 challenge, whoever sends it and
  whatever the key. The 403 of the ownership check is reached only by a request whose
  payment was accepted and whose signature over \<open>renew:key\<close> verifies, for a key that
  exists and belongs to someone else.
\<close>

theorem renew_payment_precedes_ownership:
  assumes "httpMethod req = ''POST''" and "path req = ''/renew/'' @ key" and "key \<noteq> []"
  shows "(payment req = None \<or> (\<exists>p. payment req = Some p \<and> \<not> facilitator env p)
            \<longrightarrow> app cfg env s keyTime now req = ((402, PaymentChallenge), s))
       \<and> ((\<exists>p. payment req = Some p \<and> facilitator env p)
            \<and> present (walletAddress req) = Some w
            \<and> present (signature req) = Some sg
            \<and> verifyMessage env w (''renew:'' @ key) sg = Returns True
            \<and> getFile s key = Some rec
            \<and> \<not> isOwner s key w
            \<longrightarrow> app cfg env s keyTime now req
                  = ((403, ErrorBody ''Access denied: not the owner''), s))"
  using renewRoute_stranger [of req w sg env key s rec now]
  by (auto simp: app_renew [OF assms])

theorem renew_payment_precedes_ownership_witness:
  "app exampleConfig exampleEnv exampleState 1707912000000 1707912000000
       (signedRequest ''POST'' (''/renew/'' @ helloKey) ''0xBB'' ''0xgood'' None)
     = ((402, PaymentChallenge), exampleState)
   \<and> app exampleConfig exampleEnv exampleState 1707912000000 1707912000000
       (signedRequest ''POST'' (''/renew/'' @ helloKey) ''0xBB'' ''0xgood'' (Some ''paid''))
     = ((403, ErrorBody ''Access denied: not the owner''), exampleState)"
proof -
  let ?unpaid = "signedRequest ''POST'' (''/renew/'' @ helloKey) ''0xBB'' ''0xgood'' None"
  let ?paid = "signedRequest ''POST'' (''/renew/'' @ helloKey) ''0xBB'' ''0xgood'' (Some ''paid'')"
  from renew_payment_precedes_ownership
         [where req = ?unpaid and key = helloKey and env = exampleEnv and cfg = exampleConfig
            and s = exampleState and keyTime = 1707912000000 and now = 1707912000000]
  have a: "app exampleConfig exampleEnv exampleState 1707912000000 1707912000000 ?unpaid
             = ((402, PaymentChallenge), exampleState)"
    by (simp add: signedRequest_fields helloKey_nonempty)
  from renew_payment_precedes_ownership
         [where req = ?paid and key = helloKey and env = exampleEnv and cfg = exampleConfig
            and s = exampleState and keyTime = 1707912000000 and now = 1707912000000
            and w = "''0xBB''" and sg = "''0xgood''" and rec = helloRecord]
  have b: "app exampleConfig exampleEnv exampleState 1707912000000 1707912000000 ?paid
             = ((403, ErrorBody ''Access denied: not the owner''), exampleState)"
    by (simp add: signedRequest_fields helloKey_nonempty exampleEnv_settles exampleEnv_verifies
          exampleState_hello hello_owner)
  from a b show ?thesis
    by simp
qed

text \<open>
  The claim as the specification words it fails: wallet \<open>0xBB\<close> asks to renew the file of
  \<open>0xaa\<close>, which exists, with a valid signature and no payment proof, and is answered
  402, not 403.
\<close>

theorem renew_by_stranger_unpaid_is_402:
  "getFile exampleState helloKey = Some helloRecord
   \<and> \<not> isOwner exampleState helloKey ''0xBB''
   \<and> payment (signedRequest ''POST'' (''/renew/'' @ helloKey) ''0xBB'' ''0xgood'' None) = None
   \<and> app exampleConfig exampleEnv exampleState 1707912000000 1707912000000
         (signedRequest ''POST'' (''/renew/'' @ helloKey) ''0xBB'' ''0xgood'' None)
       = ((402, PaymentChallenge), exampleState)"
  using app_renew [of "signedRequest ''POST'' (''/renew/'' @ helloKey) ''0xBB'' ''0xgood'' None"
          helloKey exampleConfig exampleEnv exampleState 1707912000000 1707912000000]
  by (simp add: signedRequest_fields helloKey_nonempty exampleState_hello hello_owner)

section \<open>Owners are stored in lower case\<close>

lemma inv_initial: "ownersLowercase initialState"
  by (simp add: ownersLowercase_def initialState_def)

lemma inv_recordUpload:
  "ownersLowercase s \<Longrightarrow> recordUpload rec s = Inr s' \<Longrightarrow> ownersLowercase s'"
  by (auto simp: ownersLowercase_def recordUpload_def toLowerCase_idem split: if_splits)

lemma inv_deleteRecord: "ownersLowercase s \<Longrightarrow> ownersLowercase (snd (deleteRecord key s))"
  by (simp add: ownersLowercase_def deleteRecord_def)

lemma inv_updateExpiresAt: "ownersLowercase s \<Longrightarrow> ownersLowercase (updateExpiresAt e key s)"
  by (auto simp: ownersLowercase_def updateExpiresAt_def)

lemma inv_cleanup: "ownersLowercase s \<Longrightarrow> ownersLowercase (snd (cleanupExpiredRecords now s))"
  by (simp add: ownersLowercase_def cleanupExpiredRecords_def)

lemma inv_uploadRoute:
  "ownersLowercase s \<Longrightarrow> ownersLowercase (snd (uploadRoute cfg env s keyTime now req))"
  by (auto simp: uploadRoute_def Let_def inv_recordUpload
           split: option.splits form_data.splits outcome.splits bool.splits sum.splits)

lemma inv_getFileRoute:
  "ownersLowercase s \<Longrightarrow> ownersLowercase (snd (getFileRoute env s now key req))"
  by (auto simp: getFileRoute_def inv_deleteRecord
           split: option.splits outcome.splits bool.splits)

lemma inv_filesRoute:
  "ownersLowercase s \<Longrightarrow> ownersLowercase (snd (filesRoute env s now req))"
  by (auto simp: filesRoute_def split: option.splits outcome.splits bool.splits)

lemma inv_fileInfoRoute:
  "ownersLowercase s \<Longrightarrow> ownersLowercase (snd (fileInfoRoute env s now key req))"
  by (auto simp: fileInfoRoute_def split: option.splits outcome.splits bool.splits)

lemma inv_deleteRoute:
  "ownersLowercase s \<Longrightarrow> ownersLowercase (snd (deleteRoute env s key req))"
  by (auto simp: deleteRoute_def inv_deleteRecord
           split: option.splits outcome.splits bool.splits)

lemma inv_renewRoute:
  "ownersLowercase s \<Longrightarrow> ownersLowercase (snd (renewRoute env s now key req))"
  by (auto simp: renewRoute_def Let_def inv_updateExpiresAt
           split: option.splits outcome.splits bool.splits)

lemma inv_router:
  "ownersLowercase s \<Longrightarrow> ownersLowercase (snd (router cfg env s keyTime now req))"
  by (simp add: router_def inv_uploadRoute inv_getFileRoute inv_filesRoute inv_fileInfoRoute
        inv_deleteRoute inv_renewRoute)

lemma inv_app:
  "ownersLowercase s \<Longrightarrow> ownersLowercase (snd (app cfg env s keyTime now req))"
  by (simp add: app_def middleware_def paidAwareMiddleware_def inv_router split: option.splits)

lemma reachable_ownersLowercase: "reachable s \<Longrightarrow> ownersLowercase s"
  by (induction rule: reachable.induct) (simp_all add: inv_initial inv_app inv_cleanup)

text \<open>
  Claim C10. \<open>recordUpload\<close> lowers the owner when it inserts, and nothing else writes an
  owner. So in every state the server can reach, the owner of a stored record is in lower
  case (lowering it again changes nothing), \<open>isOwner\<close> holds for an address exactly when
  its lower-case form is the stored owner, and \<open>getFilesByOwner\<close> returns the record
  exactly for the addresses whose lower-case form is the stored owner, whatever their
  casing.
\<close>

theorem stored_owner_is_lowercase:
  assumes "reachable s" and "getFile s key = Some rec"
  shows "toLowerCase (ownerAddress rec) = ownerAddress rec
       \<and> (isOwner s key a \<longleftrightarrow> toLowerCase a = ownerAddress rec)
       \<and> (rec \<in> set (getFilesByOwner s a) \<longleftrightarrow> toLowerCase a = ownerAddress rec)
       \<and> (\<forall>new s'. recordUpload new s = Inr s' \<longrightarrow>
             map_option ownerAddress (getFile s' (fileKey new))
               = Some (toLowerCase (ownerAddress new)))"
proof -
  have member: "rec \<in> set (files s)"
    using getFile_Some_set [OF assms(2)] by simp
  with reachable_ownersLowercase [OF assms(1)]
  have lower: "toLowerCase (ownerAddress rec) = ownerAddress rec"
    by (simp add: ownersLowercase_def)
  have owner: "isOwner s key a \<longleftrightarrow> toLowerCase a = ownerAddress rec"
    using assms(2) lower by (auto simp: isOwner_def)
  have listed: "rec \<in> set (getFilesByOwner s a) \<longleftrightarrow> toLowerCase a = ownerAddress rec"
    using member by (auto simp: getFilesByOwner_def)
  from lower owner listed recordUpload_stored show ?thesis
    by blast
qed

lemma app_upload_hello:
  "app exampleConfig exampleEnv initialState 1707825600000 1707825600000 uploadHello
     = ((200, UploadBody helloKey 5 1707825600000 1710417600000), exampleState)"
  using upload_hello
  by (simp add: app_def middleware_def isProtectedPath_iff paidAwareMiddleware_def
        routeRequiresPayment_def router_def uploadHello_fields exampleEnv_settles)

lemma reachable_exampleState: "reachable exampleState"
  using reachable.request [OF reachable.start, of exampleConfig exampleEnv 1707825600000
          1707825600000 uploadHello]
  by (simp add: app_upload_hello)

theorem stored_owner_is_lowercase_witness:
  "reachable exampleState
   \<and> getFile exampleState helloKey = Some helloRecord
   \<and> ownerAddress helloRecord = ''0xaa''
   \<and> isOwner exampleState helloKey ''0XAA''
   \<and> \<not> isOwner exampleState helloKey ''0xBB''
   \<and> helloRecord \<in> set (getFilesByOwner exampleState ''0XAA'')"
proof -
  have o: "ownerAddress helloRecord = ''0xaa''"
    by (simp add: helloRecord_def)
  have l1: "toLowerCase ''0XAA'' = ''0xaa''" and l2: "toLowerCase ''0xBB'' \<noteq> ''0xaa''"
    by code_simp+
  from stored_owner_is_lowercase [OF reachable_exampleState exampleState_hello, of "''0XAA''"]
    stored_owner_is_lowercase [OF reachable_exampleState exampleState_hello, of "''0xBB''"]
    reachable_exampleState exampleState_hello o l1 l2
  show ?thesis
    by simp
qed

end
